theory Spec2Isabelle
  imports Complex_Main "HOL-Library.Multiset"
begin

section \<open>Uniform-grid flocking kernels (src/src/kernel.cu)\<close>

text \<open>
  The kernels are embedded as functions on explicit arrays. Conventions:
  \<^item> a C \<open>int\<close> is an \<open>int\<close>; the indices and counters of the kernels are bounded by the
    particle count and the cell count, so the 32-bit wrap-around plays no part;
  \<^item> a C \<open>float\<close> is read as the real number it denotes, and the values the kernels
    store are computed with the exact \<open>+\<close>, \<open>-\<close>, \<open>*\<close>, \<open>/\<close> and square root; comparisons
    are those of the code. The one place where rounding is modelled is the neighbor test
    of the three rules, \<open>glm::length(pos[i] - pos[iSelf]) < ruleKDistance\<close>: who counts as a
    neighbor at a distance of almost exactly \<open>ruleKDistance\<close> depends on it, so there the
    subtraction and the length are computed in binary32;
  \<^item> a device array is a list; a read or write outside the array (undefined behaviour in C)
    is the error \<open>OutOfBounds\<close>;
  \<^item> a kernel is given by the function one thread runs, and a launch runs the threads of
    the launch one after the other.
\<close>

subsection \<open>Vectors, errors, array access\<close>

record vec3 =
  vx :: real
  vy :: real
  vz :: real

record int3 =
  ix :: int
  iy :: int
  iz :: int

datatype error = OutOfBounds | DivByZero

definition vzero :: vec3 where
  "vzero = \<lparr>vx = 0, vy = 0, vz = 0\<rparr>"

definition vadd :: "vec3 \<Rightarrow> vec3 \<Rightarrow> vec3" where
  "vadd a b = \<lparr>vx = vx a + vx b, vy = vy a + vy b, vz = vz a + vz b\<rparr>"

definition vsub :: "vec3 \<Rightarrow> vec3 \<Rightarrow> vec3" where
  "vsub a b = \<lparr>vx = vx a - vx b, vy = vy a - vy b, vz = vz a - vz b\<rparr>"

definition vscale :: "vec3 \<Rightarrow> real \<Rightarrow> vec3" where
  "vscale a s = \<lparr>vx = vx a * s, vy = vy a * s, vz = vz a * s\<rparr>"

text \<open>\<open>glm::length\<close>: the Euclidean norm.\<close>

definition glm_length :: "vec3 \<Rightarrow> real" where
  "glm_length a = sqrt (vx a * vx a + vy a * vy a + vz a * vz a)"

text \<open>
  Division of a float by an \<open>int\<close> count. In C a float division by zero does not trap;
  it yields an infinity or a NaN. The model reports a zero count as \<open>DivByZero\<close>, so that
  a division reached with a zero count shows in the result.
\<close>

definition fdiv :: "real \<Rightarrow> int \<Rightarrow> error + real" where
  "fdiv a n = (if n = 0 then Inl DivByZero else Inr (a / real_of_int n))"

text \<open>\<open>v /= n\<close> on a vector.\<close>

definition vdiv :: "vec3 \<Rightarrow> int \<Rightarrow> error + vec3" where
  "vdiv a n = (if n = 0 then Inl DivByZero
     else Inr \<lparr>vx = vx a / real_of_int n, vy = vy a / real_of_int n, vz = vz a / real_of_int n\<rparr>)"

text \<open>\<open>s * v\<close> with the scalar on the left.\<close>

definition smul :: "real \<Rightarrow> vec3 \<Rightarrow> vec3" where
  "smul s a = \<lparr>vx = s * vx a, vy = s * vy a, vz = s * vz a\<rparr>"

definition rd :: "'a list \<Rightarrow> int \<Rightarrow> error + 'a" where
  "rd xs i = (if 0 \<le> i \<and> i < int (length xs) then Inr (xs ! nat i) else Inl OutOfBounds)"

definition wr :: "'a list \<Rightarrow> int \<Rightarrow> 'a \<Rightarrow> error + 'a list" where
  "wr xs i v = (if 0 \<le> i \<and> i < int (length xs) then Inr (xs[nat i := v]) else Inl OutOfBounds)"

text \<open>Sequencing: the first error ends the computation.\<close>

definition ebind :: "error + 'a \<Rightarrow> ('a \<Rightarrow> error + 'b) \<Rightarrow> error + 'b" where
  "ebind m f = (case m of Inl e \<Rightarrow> Inl e | Inr a \<Rightarrow> f a)"

text \<open>A \<open>for\<close> loop over the given index values, stopping at the first error.\<close>

fun for_loop :: "('s \<Rightarrow> int \<Rightarrow> error + 's) \<Rightarrow> int list \<Rightarrow> 's \<Rightarrow> error + 's" where
  "for_loop body [] s = Inr s"
| "for_loop body (i # is) s = ebind (body s i) (for_loop body is)"

subsection \<open>The neighbor test in binary32\<close>

text \<open>
  Rounding to the nearest binary32 number, ties to even (IEEE 754). A binary32 number
  with exponent \<open>e\<close> is a multiple of \<open>2 powi (e - 23)\<close>; the exponent of a value is
  searched upwards from \<open>0\<close> to \<open>127\<close> or downwards from \<open>- 1\<close> to \<open>- 126\<close>, where the
  subnormal numbers share the spacing of the smallest normal ones. Overflow to infinity
  is not modelled: positions stay within the scene.
\<close>

definition round_even :: "real \<Rightarrow> int" where
  "round_even x =
     (let n = \<lfloor>x\<rfloor>; d = x - real_of_int n
      in if d < 1 / 2 then n else if 1 / 2 < d then n + 1 else if even n then n else n + 1)"

fun exp_up :: "nat \<Rightarrow> int \<Rightarrow> real \<Rightarrow> int" where
  "exp_up 0 e a = e"
| "exp_up (Suc n) e a = (if a < 2 powi (e + 1) then e else exp_up n (e + 1) a)"

fun exp_down :: "nat \<Rightarrow> int \<Rightarrow> real \<Rightarrow> int" where
  "exp_down 0 e a = e"
| "exp_down (Suc n) e a = (if 2 powi e \<le> a then e else exp_down n (e - 1) a)"

definition f32_exponent :: "real \<Rightarrow> int" where
  "f32_exponent a = (if 1 \<le> a then exp_up 127 0 a else exp_down 125 (- 1) a)"

definition f32 :: "real \<Rightarrow> real" where
  "f32 x = (let q = 2 powi (f32_exponent \<bar>x\<bar> - 23) in real_of_int (round_even (x / q)) * q)"

text \<open>\<open>pos[i] - pos[iSelf]\<close> as the test computes it: each component rounded.\<close>

definition vsub_f32 :: "vec3 \<Rightarrow> vec3 \<Rightarrow> vec3" where
  "vsub_f32 a b = \<lparr>vx = f32 (vx a - vx b), vy = f32 (vy a - vy b), vz = f32 (vz a - vz b)\<rparr>"

text \<open>
  \<open>glm::length\<close> as the test computes it. The glm library is outside the repository:
  \<open>length(v)\<close> is \<open>sqrt(dot(v, v))\<close>, and \<open>dot\<close> on \<open>vec3\<close> multiplies componentwise and adds
  the three products from the left. Every operation rounds its exact result.
\<close>

definition glm_length_f32 :: "vec3 \<Rightarrow> real" where
  "glm_length_f32 a =
     f32 (sqrt (f32 (f32 (f32 (vx a * vx a) + f32 (vy a * vy a)) + f32 (vz a * vz a))))"

subsection \<open>Configuration\<close>

definition blockSize :: int where "blockSize = 128"

definition rule1Distance :: real where "rule1Distance = 20"
definition rule2Distance :: real where "rule2Distance = 4"
definition rule3Distance :: real where "rule3Distance = 10"

definition rule1Scale :: real where "rule1Scale = 1 / 100"
definition rule2Scale :: real where "rule2Scale = 1 / 10"
definition rule3Scale :: real where "rule3Scale = 1 / 10"

definition maxSpeed :: real where "maxSpeed = 1"

definition scene_scale :: real where "scene_scale = 100"

text \<open>The capacity of a candidate array: up to eight cell ids and the terminator.\<close>

definition maxGridCells :: nat where "maxGridCells = 9"

subsection \<open>Kernel launches\<close>

definition fullBlocksPerGrid :: "int \<Rightarrow> int" where
  "fullBlocksPerGrid n = (n + blockSize - 1) div blockSize"

text \<open>
  \<open>kern<<<fullBlocksPerGrid, blockSize>>>\<close>: every thread of every block runs the kernel
  function with its own global index; here in increasing index order.
\<close>

definition launch :: "int \<Rightarrow> ('s \<Rightarrow> int \<Rightarrow> error + 's) \<Rightarrow> 's \<Rightarrow> error + 's" where
  "launch n thread s = for_loop thread [0..fullBlocksPerGrid n * blockSize - 1] s"

subsection \<open>Rule 1: cohesion\<close>

definition rule1_body :: "vec3 list \<Rightarrow> int \<Rightarrow> vec3 \<times> int \<Rightarrow> int \<Rightarrow> error + vec3 \<times> int" where
  "rule1_body pos iSelf acc i =
     ebind (rd pos i) (\<lambda>p.
     ebind (rd pos iSelf) (\<lambda>s.
       Inr (if glm_length_f32 (vsub_f32 p s) < rule1Distance
            then (vadd (fst acc) p, snd acc + 1) else acc)))"

text \<open>The two loops of \<open>rule1\<close>: the sum \<open>pc\<close> and the count \<open>n\<close> when they end.\<close>

definition rule1_loops :: "int \<Rightarrow> int \<Rightarrow> vec3 list \<Rightarrow> error + vec3 \<times> int" where
  "rule1_loops N iSelf pos =
     ebind (for_loop (rule1_body pos iSelf) [0..iSelf - 1] (vzero, 0))
       (for_loop (rule1_body pos iSelf) [iSelf + 1..N - 1])"

text \<open>What follows the loops, the same in all three variants of rule 1.\<close>

definition rule1_finish :: "vec3 list \<Rightarrow> int \<Rightarrow> real \<Rightarrow> vec3 \<times> int \<Rightarrow> error + vec3" where
  "rule1_finish pos iSelf scale acc =
     (if snd acc = 0 then Inr vzero
      else ebind (vdiv (fst acc) (snd acc)) (\<lambda>pc.
           ebind (rd pos iSelf) (\<lambda>s.
             Inr (vscale (vsub pc s) scale))))"

definition rule1 :: "int \<Rightarrow> int \<Rightarrow> vec3 list \<Rightarrow> real \<Rightarrow> error + vec3" where
  "rule1 N iSelf pos scale = ebind (rule1_loops N iSelf pos) (rule1_finish pos iSelf scale)"

text \<open>
  \<open>for (int k{0}; usedGridIndices[k] != -1; ++k)\<close> over the candidate array: the loop ends
  at the first \<open>-1\<close>, and runs off the array when there is none.
\<close>

fun cell_loop :: "('s \<Rightarrow> int \<Rightarrow> error + 's) \<Rightarrow> int list \<Rightarrow> 's \<Rightarrow> error + 's" where
  "cell_loop body [] s = Inl OutOfBounds"
| "cell_loop body (gridC # rest) s =
     (if gridC = - 1 then Inr s else ebind (body s gridC) (cell_loop body rest))"

text \<open>The inner loop over the slots \<open>[gridCellStartIndices[gridC], gridCellEndIndices[gridC])\<close>.\<close>

definition scan_cell :: "int list \<Rightarrow> int list \<Rightarrow> ('s \<Rightarrow> int \<Rightarrow> error + 's) \<Rightarrow> 's \<Rightarrow> int \<Rightarrow> error + 's" where
  "scan_cell gridCellStartIndices gridCellEndIndices body s gridC =
     ebind (rd gridCellStartIndices gridC) (\<lambda>lo.
     ebind (rd gridCellEndIndices gridC) (\<lambda>hi.
       for_loop body [lo..hi - 1] s))"

definition rule1Scatter_body :: "int list \<Rightarrow> vec3 list \<Rightarrow> int \<Rightarrow> vec3 \<times> int \<Rightarrow> int \<Rightarrow> error + vec3 \<times> int" where
  "rule1Scatter_body particleArrayIndices pos iSelf acc i =
     ebind (rd particleArrayIndices i) (\<lambda>neighbor.
       if neighbor = iSelf then Inr acc
       else ebind (rd pos neighbor) (\<lambda>p.
            ebind (rd pos iSelf) (\<lambda>s.
              Inr (if glm_length_f32 (vsub_f32 p s) < rule1Distance
                   then (vadd (fst acc) p, snd acc + 1) else acc))))"

definition rule1Scatter_loops :: "int \<Rightarrow> int list \<Rightarrow> int list \<Rightarrow> int list \<Rightarrow> vec3 list \<Rightarrow> int list \<Rightarrow> error + vec3 \<times> int" where
  "rule1Scatter_loops iSelf gridCellStartIndices gridCellEndIndices particleArrayIndices pos usedGridIndices =
     cell_loop (scan_cell gridCellStartIndices gridCellEndIndices
                  (rule1Scatter_body particleArrayIndices pos iSelf))
       usedGridIndices (vzero, 0)"

definition rule1Scatter :: "int \<Rightarrow> int list \<Rightarrow> int list \<Rightarrow> int list \<Rightarrow> vec3 list \<Rightarrow> int list \<Rightarrow> real \<Rightarrow> error + vec3" where
  "rule1Scatter iSelf gridCellStartIndices gridCellEndIndices particleArrayIndices pos usedGridIndices scale =
     ebind (rule1Scatter_loops iSelf gridCellStartIndices gridCellEndIndices particleArrayIndices pos usedGridIndices)
       (rule1_finish pos iSelf scale)"

definition rule1Coherent_body :: "vec3 list \<Rightarrow> int \<Rightarrow> vec3 \<times> int \<Rightarrow> int \<Rightarrow> error + vec3 \<times> int" where
  "rule1Coherent_body pos iSelf acc neighbor =
     (if neighbor = iSelf then Inr acc
      else ebind (rd pos neighbor) (\<lambda>p.
           ebind (rd pos iSelf) (\<lambda>s.
             Inr (if glm_length_f32 (vsub_f32 p s) < rule1Distance
                  then (vadd (fst acc) p, snd acc + 1) else acc))))"

definition rule1Coherent_loops :: "int \<Rightarrow> int list \<Rightarrow> int list \<Rightarrow> vec3 list \<Rightarrow> int list \<Rightarrow> error + vec3 \<times> int" where
  "rule1Coherent_loops iSelf gridCellStartIndices gridCellEndIndices pos usedGridIndices =
     cell_loop (scan_cell gridCellStartIndices gridCellEndIndices (rule1Coherent_body pos iSelf))
       usedGridIndices (vzero, 0)"

definition rule1Coherent :: "int \<Rightarrow> int list \<Rightarrow> int list \<Rightarrow> vec3 list \<Rightarrow> int list \<Rightarrow> real \<Rightarrow> error + vec3" where
  "rule1Coherent iSelf gridCellStartIndices gridCellEndIndices pos usedGridIndices scale =
     ebind (rule1Coherent_loops iSelf gridCellStartIndices gridCellEndIndices pos usedGridIndices)
       (rule1_finish pos iSelf scale)"

subsection \<open>Rule 2: separation\<close>

definition rule2_body :: "vec3 list \<Rightarrow> int \<Rightarrow> vec3 \<Rightarrow> int \<Rightarrow> error + vec3" where
  "rule2_body pos iSelf c i =
     ebind (rd pos i) (\<lambda>p.
     ebind (rd pos iSelf) (\<lambda>s.
       Inr (if glm_length_f32 (vsub_f32 p s) < rule2Distance then vsub c (vsub p s) else c)))"

definition rule2 :: "int \<Rightarrow> int \<Rightarrow> vec3 list \<Rightarrow> real \<Rightarrow> error + vec3" where
  "rule2 N iSelf pos scale =
     ebind (for_loop (rule2_body pos iSelf) [0..iSelf - 1] vzero) (\<lambda>c.
     ebind (for_loop (rule2_body pos iSelf) [iSelf + 1..N - 1] c) (\<lambda>c.
       Inr (vscale c scale)))"

definition rule2Scatter_body :: "int list \<Rightarrow> vec3 list \<Rightarrow> int \<Rightarrow> vec3 \<Rightarrow> int \<Rightarrow> error + vec3" where
  "rule2Scatter_body particleArrayIndices pos iSelf c i =
     ebind (rd particleArrayIndices i) (\<lambda>neighbor.
       if neighbor = iSelf then Inr c
       else ebind (rd pos neighbor) (\<lambda>p.
            ebind (rd pos iSelf) (\<lambda>s.
              Inr (if glm_length_f32 (vsub_f32 p s) < rule2Distance then vsub c (vsub p s) else c))))"

definition rule2Scatter :: "int \<Rightarrow> int list \<Rightarrow> int list \<Rightarrow> int list \<Rightarrow> vec3 list \<Rightarrow> int list \<Rightarrow> real \<Rightarrow> error + vec3" where
  "rule2Scatter iSelf gridCellStartIndices gridCellEndIndices particleArrayIndices pos usedGridIndices scale =
     ebind (cell_loop (scan_cell gridCellStartIndices gridCellEndIndices
                         (rule2Scatter_body particleArrayIndices pos iSelf))
              usedGridIndices vzero)
       (\<lambda>c. Inr (vscale c scale))"

definition rule2Coherent_body :: "vec3 list \<Rightarrow> int \<Rightarrow> vec3 \<Rightarrow> int \<Rightarrow> error + vec3" where
  "rule2Coherent_body pos iSelf c neighbor =
     (if neighbor = iSelf then Inr c
      else ebind (rd pos neighbor) (\<lambda>p.
           ebind (rd pos iSelf) (\<lambda>s.
             Inr (if glm_length_f32 (vsub_f32 p s) < rule2Distance then vsub c (vsub p s) else c))))"

definition rule2Coherent :: "int \<Rightarrow> int list \<Rightarrow> int list \<Rightarrow> vec3 list \<Rightarrow> int list \<Rightarrow> real \<Rightarrow> error + vec3" where
  "rule2Coherent iSelf gridCellStartIndices gridCellEndIndices pos usedGridIndices scale =
     ebind (cell_loop (scan_cell gridCellStartIndices gridCellEndIndices (rule2Coherent_body pos iSelf))
              usedGridIndices vzero)
       (\<lambda>c. Inr (vscale c scale))"

subsection \<open>Rule 3: alignment\<close>

definition rule3_body :: "vec3 list \<Rightarrow> vec3 list \<Rightarrow> int \<Rightarrow> vec3 \<times> int \<Rightarrow> int \<Rightarrow> error + vec3 \<times> int" where
  "rule3_body pos vel iSelf acc i =
     ebind (rd pos i) (\<lambda>p.
     ebind (rd pos iSelf) (\<lambda>s.
       if glm_length_f32 (vsub_f32 p s) < rule3Distance
       then ebind (rd vel i) (\<lambda>v. Inr (vadd (fst acc) v, snd acc + 1))
       else Inr acc))"

definition rule3_loops :: "int \<Rightarrow> int \<Rightarrow> vec3 list \<Rightarrow> vec3 list \<Rightarrow> error + vec3 \<times> int" where
  "rule3_loops N iSelf pos vel =
     ebind (for_loop (rule3_body pos vel iSelf) [0..iSelf - 1] (vzero, 0))
       (for_loop (rule3_body pos vel iSelf) [iSelf + 1..N - 1])"

text \<open>What follows the loops, the same in all three variants of rule 3.\<close>

definition rule3_finish :: "real \<Rightarrow> vec3 \<times> int \<Rightarrow> error + vec3" where
  "rule3_finish scale acc =
     (if snd acc \<noteq> 0
      then ebind (fdiv scale (snd acc)) (\<lambda>k. Inr (vscale (fst acc) k))
      else Inr (fst acc))"

definition rule3 :: "int \<Rightarrow> int \<Rightarrow> vec3 list \<Rightarrow> vec3 list \<Rightarrow> real \<Rightarrow> error + vec3" where
  "rule3 N iSelf pos vel scale = ebind (rule3_loops N iSelf pos vel) (rule3_finish scale)"

definition rule3Scatter_body :: "int list \<Rightarrow> vec3 list \<Rightarrow> vec3 list \<Rightarrow> int \<Rightarrow> vec3 \<times> int \<Rightarrow> int \<Rightarrow> error + vec3 \<times> int" where
  "rule3Scatter_body particleArrayIndices pos vel iSelf acc i =
     ebind (rd particleArrayIndices i) (\<lambda>neighbor.
       if neighbor = iSelf then Inr acc
       else ebind (rd pos neighbor) (\<lambda>p.
            ebind (rd pos iSelf) (\<lambda>s.
              if glm_length_f32 (vsub_f32 p s) < rule3Distance
              then ebind (rd vel neighbor) (\<lambda>v. Inr (vadd (fst acc) v, snd acc + 1))
              else Inr acc)))"

definition rule3Scatter_loops :: "int \<Rightarrow> int list \<Rightarrow> int list \<Rightarrow> int list \<Rightarrow> vec3 list \<Rightarrow> vec3 list \<Rightarrow> int list \<Rightarrow> error + vec3 \<times> int" where
  "rule3Scatter_loops iSelf gridCellStartIndices gridCellEndIndices particleArrayIndices pos vel usedGridIndices =
     cell_loop (scan_cell gridCellStartIndices gridCellEndIndices
                  (rule3Scatter_body particleArrayIndices pos vel iSelf))
       usedGridIndices (vzero, 0)"

definition rule3Scatter :: "int \<Rightarrow> int list \<Rightarrow> int list \<Rightarrow> int list \<Rightarrow> vec3 list \<Rightarrow> vec3 list \<Rightarrow> int list \<Rightarrow> real \<Rightarrow> error + vec3" where
  "rule3Scatter iSelf gridCellStartIndices gridCellEndIndices particleArrayIndices pos vel usedGridIndices scale =
     ebind (rule3Scatter_loops iSelf gridCellStartIndices gridCellEndIndices particleArrayIndices pos vel usedGridIndices)
       (rule3_finish scale)"

definition rule3Coherent_body :: "vec3 list \<Rightarrow> vec3 list \<Rightarrow> int \<Rightarrow> vec3 \<times> int \<Rightarrow> int \<Rightarrow> error + vec3 \<times> int" where
  "rule3Coherent_body pos vel iSelf acc neighbor =
     (if neighbor = iSelf then Inr acc
      else ebind (rd pos neighbor) (\<lambda>p.
           ebind (rd pos iSelf) (\<lambda>s.
             if glm_length_f32 (vsub_f32 p s) < rule3Distance
             then ebind (rd vel neighbor) (\<lambda>v. Inr (vadd (fst acc) v, snd acc + 1))
             else Inr acc)))"

definition rule3Coherent_loops :: "int \<Rightarrow> int list \<Rightarrow> int list \<Rightarrow> vec3 list \<Rightarrow> vec3 list \<Rightarrow> int list \<Rightarrow> error + vec3 \<times> int" where
  "rule3Coherent_loops iSelf gridCellStartIndices gridCellEndIndices pos vel usedGridIndices =
     cell_loop (scan_cell gridCellStartIndices gridCellEndIndices (rule3Coherent_body pos vel iSelf))
       usedGridIndices (vzero, 0)"

definition rule3Coherent :: "int \<Rightarrow> int list \<Rightarrow> int list \<Rightarrow> vec3 list \<Rightarrow> vec3 list \<Rightarrow> int list \<Rightarrow> real \<Rightarrow> error + vec3" where
  "rule3Coherent iSelf gridCellStartIndices gridCellEndIndices pos vel usedGridIndices scale =
     ebind (rule3Coherent_loops iSelf gridCellStartIndices gridCellEndIndices pos vel usedGridIndices)
       (rule3_finish scale)"

subsection \<open>The three-rule velocity change\<close>

definition computeVelocityChangeScattered :: "int \<Rightarrow> int list \<Rightarrow> int list \<Rightarrow> int list \<Rightarrow> vec3 list \<Rightarrow> vec3 list \<Rightarrow> int list \<Rightarrow> error + vec3" where
  "computeVelocityChangeScattered iSelf gridCellStartIndices gridCellEndIndices particleArrayIndices pos vel usedGridIndices =
     ebind (rule1Scatter iSelf gridCellStartIndices gridCellEndIndices particleArrayIndices pos usedGridIndices rule1Scale) (\<lambda>v.
     ebind (rule2Scatter iSelf gridCellStartIndices gridCellEndIndices particleArrayIndices pos usedGridIndices rule2Scale) (\<lambda>v2.
     ebind (rule3Scatter iSelf gridCellStartIndices gridCellEndIndices particleArrayIndices pos vel usedGridIndices rule3Scale) (\<lambda>v3.
       Inr (vadd (vadd v v2) v3))))"

definition computeVelocityChangeCoherent :: "int \<Rightarrow> int list \<Rightarrow> int list \<Rightarrow> vec3 list \<Rightarrow> vec3 list \<Rightarrow> int list \<Rightarrow> error + vec3" where
  "computeVelocityChangeCoherent iSelf gridCellStartIndices gridCellEndIndices pos vel usedGridIndices =
     ebind (rule1Coherent iSelf gridCellStartIndices gridCellEndIndices pos usedGridIndices rule1Scale) (\<lambda>v.
     ebind (rule2Coherent iSelf gridCellStartIndices gridCellEndIndices pos usedGridIndices rule2Scale) (\<lambda>v2.
     ebind (rule3Coherent iSelf gridCellStartIndices gridCellEndIndices pos vel usedGridIndices rule3Scale) (\<lambda>v3.
       Inr (vadd (vadd v v2) v3))))"

definition computeVelocityChange :: "int \<Rightarrow> int \<Rightarrow> vec3 list \<Rightarrow> vec3 list \<Rightarrow> error + vec3" where
  "computeVelocityChange N iSelf pos vel =
     ebind (rule1 N iSelf pos rule1Scale) (\<lambda>v.
     ebind (rule2 N iSelf pos rule2Scale) (\<lambda>v2.
     ebind (rule3 N iSelf pos vel rule3Scale) (\<lambda>v3.
       Inr (vadd (vadd v v2) v3))))"

subsection \<open>Velocity and position kernels\<close>

text \<open>Each kernel function returns the buffer it writes (\<open>vel2\<close>, or \<open>pos\<close>).\<close>

definition kernUpdateVelocityBruteForce :: "int \<Rightarrow> vec3 list \<Rightarrow> vec3 list \<Rightarrow> vec3 list \<Rightarrow> int \<Rightarrow> error + vec3 list" where
  "kernUpdateVelocityBruteForce N pos vel1 vel2 boid =
     (if boid \<ge> N then Inr vel2
      else ebind (computeVelocityChange N boid pos vel1) (\<lambda>v3.
           ebind (rd vel1 boid) (\<lambda>v.
           ebind (wr vel2 boid (vadd v v3)) (\<lambda>vel2.
           ebind (rd vel2 boid) (\<lambda>w.
             let length = glm_length w
             in if length > maxSpeed then wr vel2 boid (smul (maxSpeed / length) w)
                else Inr vel2)))))"

definition kernUpdatePos :: "int \<Rightarrow> real \<Rightarrow> vec3 list \<Rightarrow> vec3 list \<Rightarrow> int \<Rightarrow> error + vec3 list" where
  "kernUpdatePos N dt pos vel index =
     (if index \<ge> N then Inr pos
      else ebind (rd pos index) (\<lambda>p.
           ebind (rd vel index) (\<lambda>v.
             let thisPos = vadd p (vscale v dt);
                 thisPos = thisPos\<lparr>vx := if vx thisPos < - scene_scale then scene_scale else vx thisPos\<rparr>;
                 thisPos = thisPos\<lparr>vy := if vy thisPos < - scene_scale then scene_scale else vy thisPos\<rparr>;
                 thisPos = thisPos\<lparr>vz := if vz thisPos < - scene_scale then scene_scale else vz thisPos\<rparr>;
                 thisPos = thisPos\<lparr>vx := if vx thisPos > scene_scale then - scene_scale else vx thisPos\<rparr>;
                 thisPos = thisPos\<lparr>vy := if vy thisPos > scene_scale then - scene_scale else vy thisPos\<rparr>;
                 thisPos = thisPos\<lparr>vz := if vz thisPos > scene_scale then - scene_scale else vz thisPos\<rparr>
             in wr pos index thisPos)))"

subsection \<open>Grid geometry and the index arrays\<close>

definition gridIndex3Dto1D :: "int \<Rightarrow> int \<Rightarrow> int \<Rightarrow> int \<Rightarrow> int" where
  "gridIndex3Dto1D x y z gridResolution =
     x + y * gridResolution + z * gridResolution * gridResolution"

definition gridInRange :: "int3 \<Rightarrow> int \<Rightarrow> bool" where
  "gridInRange val gridResolution \<longleftrightarrow>
     ix val \<ge> 0 \<and> ix val \<le> gridResolution \<and>
     iy val \<ge> 0 \<and> iy val \<le> gridResolution \<and>
     iz val \<ge> 0 \<and> iz val \<le> gridResolution"

text \<open>The C conversion \<open>(int) f\<close>: the fractional part is discarded (rounding toward zero).\<close>

definition int_cast :: "real \<Rightarrow> int" where
  "int_cast f = (if 0 \<le> f then \<lfloor>f\<rfloor> else - \<lfloor>- f\<rfloor>)"

definition boidGrid :: "vec3 \<Rightarrow> vec3 \<Rightarrow> real \<Rightarrow> int3" where
  "boidGrid location gridMin inverseCellWidth =
     (let boidCell = vscale (vsub location gridMin) inverseCellWidth
      in \<lparr>ix = int_cast (vx boidCell), iy = int_cast (vy boidCell), iz = int_cast (vz boidCell)\<rparr>)"

text \<open>The state of \<open>kernComputeIndices\<close> is the pair \<open>(indices, gridIndices)\<close>.\<close>

definition kernComputeIndices :: "int \<Rightarrow> int \<Rightarrow> vec3 \<Rightarrow> real \<Rightarrow> vec3 list \<Rightarrow> int list \<times> int list \<Rightarrow> int \<Rightarrow> error + int list \<times> int list" where
  "kernComputeIndices N gridResolution gridMin inverseCellWidth pos bufs boid =
     (if boid \<ge> N then Inr bufs
      else ebind (rd pos boid) (\<lambda>p.
             let gridCoord = boidGrid p gridMin inverseCellWidth;
                 gridIndex = gridIndex3Dto1D (ix gridCoord) (iy gridCoord) (iz gridCoord) gridResolution
             in ebind (wr (snd bufs) boid gridIndex) (\<lambda>gridIndices.
                ebind (wr (fst bufs) boid boid) (\<lambda>indices.
                  Inr (indices, gridIndices)))))"

definition kernResetIntBuffer :: "int \<Rightarrow> int \<Rightarrow> int list \<Rightarrow> int \<Rightarrow> error + int list" where
  "kernResetIntBuffer N val intBuffer index =
     (if index < N then wr intBuffer index val else Inr intBuffer)"

subsection \<open>Neighbor-cell enumeration\<close>

definition xoffsets :: "int list" where "xoffsets = [0, 1, 0, 1]"
definition yoffsets :: "int list" where "yoffsets = [0, 0, 1, 1]"

text \<open>
  The body shared by the two probe loops of \<open>findGridCells\<close>, for the probed coordinate
  \<open>cpy\<close>; the state is \<open>(usedGridCells, currLoc)\<close>. The start table is read only when
  \<open>gridInRange\<close> holds, as \<open>&&\<close> does.
\<close>

definition probe :: "int \<Rightarrow> int list \<Rightarrow> int list \<times> int \<Rightarrow> int3 \<Rightarrow> error + int list \<times> int" where
  "probe gridResolution gridCellStartIndices st cpy =
     (let gridCell = gridIndex3Dto1D (ix cpy) (iy cpy) (iz cpy) gridResolution
      in if gridInRange cpy gridResolution
         then ebind (rd gridCellStartIndices gridCell) (\<lambda>first.
                if first \<noteq> - 1
                then ebind (wr (fst st) (snd st) gridCell) (\<lambda>used. Inr (used, snd st + 1))
                else Inr st)
         else Inr st)"

definition findGridCells :: "int \<Rightarrow> int \<Rightarrow> vec3 \<Rightarrow> real \<Rightarrow> real \<Rightarrow> int list \<Rightarrow> vec3 list \<Rightarrow> int list \<Rightarrow> error + int list" where
  "findGridCells iSelf gridResolution gridMin inverseCellWidth cellWidth gridCellStartIndices pos usedGridCells =
     ebind (rd pos iSelf) (\<lambda>p.
       let boidOffset = \<lparr>vx = cellWidth * (1 / 2), vy = cellWidth * (1 / 2), vz = cellWidth * (1 / 2)\<rparr>;
           extremeBoid = vadd p boidOffset;
           cellindices = boidGrid extremeBoid gridMin inverseCellWidth
       in ebind (for_loop (\<lambda>st i. probe gridResolution gridCellStartIndices st
                    \<lparr>ix = ix cellindices - xoffsets ! nat i,
                     iy = iy cellindices - yoffsets ! nat i,
                     iz = iz cellindices\<rparr>)
                  [0..3] (usedGridCells, 0)) (\<lambda>st.
            let extremeBoid = vsub p boidOffset;
                cellindices = boidGrid extremeBoid gridMin inverseCellWidth
            in ebind (for_loop (\<lambda>st i. probe gridResolution gridCellStartIndices st
                         \<lparr>ix = ix cellindices + xoffsets ! nat i,
                          iy = iy cellindices + yoffsets ! nat i,
                          iz = iz cellindices\<rparr>)
                       [0..3] st) (\<lambda>st.
                 wr (fst st) (snd st) (- 1))))"

subsection \<open>Cell ranges\<close>

text \<open>The state of \<open>kernIdentifyCellStartEnd\<close> is \<open>(gridCellStartIndices, gridCellEndIndices)\<close>.\<close>

definition kernIdentifyCellStartEnd :: "int \<Rightarrow> int list \<Rightarrow> int list \<times> int list \<Rightarrow> int \<Rightarrow> error + int list \<times> int list" where
  "kernIdentifyCellStartEnd N particleGridIndices tabs index =
     (if index \<ge> N then Inr tabs
      else ebind (rd particleGridIndices index) (\<lambda>currentGridLoc.
             if index = 0
             then ebind (wr (fst tabs) currentGridLoc index) (\<lambda>starts. Inr (starts, snd tabs))
             else ebind (rd particleGridIndices (index - 1)) (\<lambda>priorGridLoc.
                    if priorGridLoc = currentGridLoc then Inr tabs
                    else ebind (wr (snd tabs) priorGridLoc index) (\<lambda>ends.
                         ebind (wr (fst tabs) currentGridLoc index) (\<lambda>starts.
                           if index = N - 1
                           then ebind (wr ends currentGridLoc N) (\<lambda>ends. Inr (starts, ends))
                           else Inr (starts, ends))))))"

subsection \<open>Grid-based velocity kernels\<close>

text \<open>
  \<open>usedGridCells\<close> is a local array of the thread, not initialised when
  \<open>findGridCells\<close> receives it; its initial content is an argument here.
\<close>

definition kernUpdateVelNeighborSearchScattered :: "int \<Rightarrow> int \<Rightarrow> vec3 \<Rightarrow> real \<Rightarrow> real \<Rightarrow> int list \<Rightarrow> int list \<Rightarrow> int list \<Rightarrow> vec3 list \<Rightarrow> vec3 list \<Rightarrow> int list \<Rightarrow> vec3 list \<Rightarrow> int \<Rightarrow> error + vec3 list" where
  "kernUpdateVelNeighborSearchScattered N gridResolution gridMin inverseCellWidth cellWidth
       gridCellStartIndices gridCellEndIndices particleArrayIndices pos vel1 usedGridCells vel2 thread =
     (if thread \<ge> N then Inr vel2
      else ebind (rd particleArrayIndices thread) (\<lambda>iSelf.
           ebind (findGridCells iSelf gridResolution gridMin inverseCellWidth cellWidth
                    gridCellStartIndices pos usedGridCells) (\<lambda>usedGridCells.
           ebind (computeVelocityChangeScattered iSelf gridCellStartIndices gridCellEndIndices
                    particleArrayIndices pos vel1 usedGridCells) (\<lambda>vchange.
           ebind (rd vel1 iSelf) (\<lambda>v.
           ebind (wr vel2 iSelf (vadd v vchange)) (\<lambda>vel2.
           ebind (rd vel2 iSelf) (\<lambda>w.
             let length = glm_length w
             in if length > maxSpeed then wr vel2 iSelf (smul (maxSpeed / length) w)
                else Inr vel2)))))))"

definition kernUpdateVelNeighborSearchCoherent :: "int \<Rightarrow> int \<Rightarrow> vec3 \<Rightarrow> real \<Rightarrow> real \<Rightarrow> int list \<Rightarrow> int list \<Rightarrow> vec3 list \<Rightarrow> vec3 list \<Rightarrow> int list \<Rightarrow> vec3 list \<Rightarrow> int \<Rightarrow> error + vec3 list" where
  "kernUpdateVelNeighborSearchCoherent N gridResolution gridMin inverseCellWidth cellWidth
       gridCellStartIndices gridCellEndIndices pos vel1 usedGridCells vel2 iSelf =
     (if iSelf \<ge> N then Inr vel2
      else ebind (findGridCells iSelf gridResolution gridMin inverseCellWidth cellWidth
                    gridCellStartIndices pos usedGridCells) (\<lambda>usedGridCells.
           ebind (computeVelocityChangeCoherent iSelf gridCellStartIndices gridCellEndIndices
                    pos vel1 usedGridCells) (\<lambda>vchange.
           ebind (rd vel1 iSelf) (\<lambda>v.
           ebind (wr vel2 iSelf (vadd v vchange)) (\<lambda>vel2.
           ebind (rd vel2 iSelf) (\<lambda>w.
             let length = glm_length w
             in if length > maxSpeed then wr vel2 iSelf (smul (maxSpeed / length) w)
                else Inr vel2))))))"

subsection \<open>Sorting the index pairs\<close>

text \<open>
  Modelled from the spec: \<open>thrust::sort_by_key\<close> is a library primitive outside the
  repository. The spec gives its contract: two parallel arrays, keys and values, come back
  permuted together so that the keys are non-decreasing; stability is not required. This
  model sorts the pairs by key with insertion sort.
\<close>

definition sort_by_key :: "int list \<Rightarrow> int list \<Rightarrow> int list \<times> int list" where
  "sort_by_key keys vals =
     (let pairs = sort_key fst (zip keys vals) in (map fst pairs, map snd pairs))"

subsection \<open>Grid parameters and the grid set-up of a step\<close>

text \<open>The grid parameters as \<open>Boids::initSimulation\<close> computes them.\<close>

definition gridCellWidth :: real where
  "gridCellWidth = 2 * max rule1Distance (max rule2Distance rule3Distance)"

definition gridInverseCellWidth :: real where
  "gridInverseCellWidth = 1 / gridCellWidth"

definition halfSideCount :: int where
  "halfSideCount = int_cast (scene_scale * gridInverseCellWidth) + 1"

definition gridSideCount :: int where
  "gridSideCount = 2 * halfSideCount"

definition gridCellCount :: int where
  "gridCellCount = gridSideCount * gridSideCount * gridSideCount"

definition gridMinimum :: vec3 where
  "gridMinimum =
     (let halfGridWidth = gridCellWidth * real_of_int halfSideCount
      in \<lparr>vx = 0 - halfGridWidth, vy = 0 - halfGridWidth, vz = 0 - halfGridWidth\<rparr>)"

text \<open>The device buffers of the uniform grid.\<close>

record grid_buffers =
  dev_particleArrayIndices :: "int list"
  dev_particleGridIndices :: "int list"
  dev_gridCellStartIndices :: "int list"
  dev_gridCellEndIndices :: "int list"

text \<open>
  The grid set-up that opens \<open>Boids::stepSimulationScatteredGrid\<close> and
  \<open>Boids::stepSimulationCoherentGrid\<close> alike: \<open>kernComputeIndices\<close>, the two
  \<open>kernResetIntBuffer\<close> launches, the sort by key, and \<open>kernIdentifyCellStartEnd\<close>.
  The two index arrays hold \<open>numObjects\<close> entries, so the sort covers them whole.
\<close>

definition gridSetup :: "int \<Rightarrow> vec3 list \<Rightarrow> grid_buffers \<Rightarrow> error + grid_buffers" where
  "gridSetup numObjects dev_pos b =
     ebind (launch numObjects
              (kernComputeIndices numObjects gridSideCount gridMinimum gridInverseCellWidth dev_pos)
              (dev_particleArrayIndices b, dev_particleGridIndices b)) (\<lambda>idx.
     ebind (launch gridCellCount (kernResetIntBuffer gridCellCount (- 1))
              (dev_gridCellStartIndices b)) (\<lambda>starts.
     ebind (launch gridCellCount (kernResetIntBuffer gridCellCount (- 1))
              (dev_gridCellEndIndices b)) (\<lambda>ends.
       let sorted_pairs = sort_by_key (snd idx) (fst idx)
       in ebind (launch numObjects (kernIdentifyCellStartEnd numObjects (fst sorted_pairs))
                   (starts, ends)) (\<lambda>tabs.
            Inr \<lparr>dev_particleArrayIndices = snd sorted_pairs,
                 dev_particleGridIndices = fst sorted_pairs,
                 dev_gridCellStartIndices = fst tabs,
                 dev_gridCellEndIndices = snd tabs\<rparr>))))"

subsection \<open>An invariant of the counting loops\<close>

text \<open>
  The state of a counting loop is the pair of the sum and the count. The count is never
  negative, and while it is zero nothing has been added to the sum.
\<close>

definition counted :: "vec3 \<times> int \<Rightarrow> bool" where
  "counted acc \<longleftrightarrow> 0 \<le> snd acc \<and> (snd acc = 0 \<longrightarrow> fst acc = vzero)"

section \<open>Properties\<close>

subsection \<open>Array access and sequencing\<close>

lemma rd_Inr: "rd xs i = Inr v \<longleftrightarrow> 0 \<le> i \<and> i < int (length xs) \<and> v = xs ! nat i"
  by (auto simp: rd_def)

lemma wr_Inr: "wr xs i v = Inr ys \<longleftrightarrow> 0 \<le> i \<and> i < int (length xs) \<and> ys = xs[nat i := v]"
  by (auto simp: wr_def)

lemma ebind_Inr: "ebind m f = Inr y \<longleftrightarrow> (\<exists>a. m = Inr a \<and> f a = Inr y)"
  by (cases m) (simp_all add: ebind_def)

lemma ebind_Inr_simp [simp]: "ebind (Inr a) f = f a"
  by (simp add: ebind_def)

lemma ebind_Inl_simp [simp]: "ebind (Inl e) f = Inl e"
  by (simp add: ebind_def)

subsection \<open>Binary32 rounding\<close>

lemma exp_up_eq:
  "2 powi e \<le> a \<Longrightarrow> e \<le> E \<Longrightarrow> E \<le> e + int n \<Longrightarrow> 2 powi E \<le> a \<Longrightarrow> a < 2 powi (E + 1)
   \<Longrightarrow> exp_up n e a = E"
proof (induction n arbitrary: e)
  case 0
  then show ?case by simp
next
  case (Suc n)
  show ?case
  proof (cases "a < 2 powi (e + 1)")
    case True
    have "E < e + 1"
    proof (rule ccontr)
      assume "\<not> E < e + 1"
      then have "(2::real) powi (e + 1) \<le> 2 powi E" by (intro power_int_increasing) simp_all
      with True Suc.prems(4) show False by simp
    qed
    with Suc.prems(2) True show ?thesis by simp
  next
    case False
    have "E \<noteq> e" using False Suc.prems(5) by auto
    with Suc.prems False show ?thesis by (simp add: Suc.IH)
  qed
qed

lemma exp_down_eq:
  "a < 2 powi (e + 1) \<Longrightarrow> E \<le> e \<Longrightarrow> e - int n \<le> E \<Longrightarrow> 2 powi E \<le> a \<Longrightarrow> a < 2 powi (E + 1)
   \<Longrightarrow> exp_down n e a = E"
proof (induction n arbitrary: e)
  case 0
  then show ?case by simp
next
  case (Suc n)
  show ?case
  proof (cases "2 powi e \<le> a")
    case True
    have "e < E + 1"
    proof (rule ccontr)
      assume "\<not> e < E + 1"
      then have "(2::real) powi (E + 1) \<le> 2 powi e" by (intro power_int_increasing) simp_all
      with True Suc.prems(5) show False by simp
    qed
    with Suc.prems(2) True show ?thesis by simp
  next
    case False
    have "E \<noteq> e" using False Suc.prems(4) by auto
    with Suc.prems False show ?thesis by (simp add: Suc.IH)
  qed
qed

lemma f32_exponent_eq:
  assumes "2 powi E \<le> a" "a < 2 powi (E + 1)" "- 126 \<le> E" "E \<le> 127"
  shows "f32_exponent a = E"
proof (cases "1 \<le> a")
  case True
  have "0 \<le> E"
  proof (rule ccontr)
    assume "\<not> 0 \<le> E"
    then have "(2::real) powi (E + 1) \<le> 2 powi 0" by (intro power_int_increasing) simp_all
    with True assms(2) show False by simp
  qed
  then show ?thesis using True assms by (simp add: f32_exponent_def exp_up_eq)
next
  case False
  have "E \<le> - 1"
  proof (rule ccontr)
    assume "\<not> E \<le> - 1"
    then have "(2::real) powi 0 \<le> 2 powi E" by (intro power_int_increasing) simp_all
    with False assms(1) show False by simp
  qed
  then show ?thesis using False assms by (simp add: f32_exponent_def exp_down_eq)
qed

lemma round_even_near:
  assumes "real_of_int n - 1 / 2 < x" "x < real_of_int n + 1 / 2"
  shows "round_even x = n"
proof (cases "real_of_int n \<le> x")
  case True
  then have "\<lfloor>x\<rfloor> = n" using assms by linarith
  then show ?thesis using assms by (simp add: round_even_def Let_def)
next
  case False
  then have "\<lfloor>x\<rfloor> = n - 1" using assms by linarith
  then show ?thesis using assms False by (simp add: round_even_def Let_def)
qed

text \<open>
  The rounded square root of \<open>y\<close> is the multiple \<open>n * q\<close> of the spacing \<open>q\<close> when the
  square root lies less than half a spacing away from it.
\<close>

lemma f32_sqrt_near:
  assumes E: "- 126 \<le> E" "E \<le> 127" and q: "q = 2 powi (E - 23)"
    and lo: "0 \<le> (real_of_int n - 1 / 2) * q" "((real_of_int n - 1 / 2) * q)\<^sup>2 < y"
    and hi: "y < ((real_of_int n + 1 / 2) * q)\<^sup>2"
    and ex: "(2 powi E)\<^sup>2 \<le> y" "y < (2 powi (E + 1))\<^sup>2"
  shows "f32 (sqrt y) = real_of_int n * q"
proof -
  have q0: "0 < q" by (simp add: q)
  have y0: "0 \<le> y" using ex(1) by (meson order_trans zero_le_power2)
  have "(2::real) powi E \<le> sqrt y"
    by (rule real_le_rsqrt) (rule ex(1))
  moreover have "sqrt y < 2 powi (E + 1)"
    by (rule real_less_lsqrt) (use ex(2) in simp_all)
  ultimately have e: "f32_exponent \<bar>sqrt y\<bar> = E"
    using y0 E by (simp add: f32_exponent_eq)
  have "(real_of_int n - 1 / 2) * q < sqrt y"
    by (rule real_less_rsqrt) (rule lo(2))
  moreover have "sqrt y < (real_of_int n + 1 / 2) * q"
  proof (rule real_less_lsqrt)
    have "(real_of_int n + 1 / 2) * q = (real_of_int n - 1 / 2) * q + q"
      by (simp add: algebra_simps)
    then show "0 \<le> (real_of_int n + 1 / 2) * q" using lo(1) q0 by linarith
    show "y < ((real_of_int n + 1 / 2) * q)\<^sup>2" by (rule hi)
  qed
  ultimately have "real_of_int n - 1 / 2 < sqrt y / q" "sqrt y / q < real_of_int n + 1 / 2"
    using q0 by (simp_all add: pos_less_divide_eq pos_divide_less_eq)
  then have "round_even (sqrt y / q) = n" by (rule round_even_near)
  then show ?thesis by (simp add: f32_def e q Let_def)
qed

lemma f32_values:
  "f32 0 = 0" "f32 1 = 1" "f32 (- 1) = - 1" "f32 30 = 30" "f32 900 = 900"
  by code_simp+

lemma sqrt_900: "sqrt 900 = 30"
  by (rule real_sqrt_unique) simp_all

subsection \<open>Position wrap-around\<close>

text \<open>
  Claim C4, as amended. With \<open>t\<close> the position after adding \<open>vel * dt\<close>, the stored
  coordinate on each axis is \<open>scene_scale\<close> when the coordinate of \<open>t\<close> lies below
  \<open>- scene_scale\<close>, is \<open>- scene_scale\<close> when it lies above \<open>scene_scale\<close>, and is the
  coordinate of \<open>t\<close> unchanged anywhere in the closed interval between the two, the value
  \<open>scene_scale\<close> itself included.
\<close>

theorem kernUpdatePos_wrap:
  assumes "kernUpdatePos N dt pos vel index = Inr pos'" and "index < N"
    and "t = vadd (pos ! nat index) (vscale (vel ! nat index) dt)"
    and "r = pos' ! nat index"
  shows "(vx t < - scene_scale \<longrightarrow> vx r = scene_scale) \<and>
         (vx t > scene_scale \<longrightarrow> vx r = - scene_scale) \<and>
         (- scene_scale \<le> vx t \<and> vx t \<le> scene_scale \<longrightarrow> vx r = vx t) \<and>
         (vy t < - scene_scale \<longrightarrow> vy r = scene_scale) \<and>
         (vy t > scene_scale \<longrightarrow> vy r = - scene_scale) \<and>
         (- scene_scale \<le> vy t \<and> vy t \<le> scene_scale \<longrightarrow> vy r = vy t) \<and>
         (vz t < - scene_scale \<longrightarrow> vz r = scene_scale) \<and>
         (vz t > scene_scale \<longrightarrow> vz r = - scene_scale) \<and>
         (- scene_scale \<le> vz t \<and> vz t \<le> scene_scale \<longrightarrow> vz r = vz t)"
proof -
  from assms(1,2) obtain p v where p: "rd pos index = Inr p" and v: "rd vel index = Inr v"
    and w: "wr pos index
       (let thisPos = vadd p (vscale v dt);
                 thisPos = thisPos\<lparr>vx := if vx thisPos < - scene_scale then scene_scale else vx thisPos\<rparr>;
                 thisPos = thisPos\<lparr>vy := if vy thisPos < - scene_scale then scene_scale else vy thisPos\<rparr>;
                 thisPos = thisPos\<lparr>vz := if vz thisPos < - scene_scale then scene_scale else vz thisPos\<rparr>;
                 thisPos = thisPos\<lparr>vx := if vx thisPos > scene_scale then - scene_scale else vx thisPos\<rparr>;
                 thisPos = thisPos\<lparr>vy := if vy thisPos > scene_scale then - scene_scale else vy thisPos\<rparr>;
                 thisPos = thisPos\<lparr>vz := if vz thisPos > scene_scale then - scene_scale else vz thisPos\<rparr>
             in thisPos) = Inr pos'"
    by (auto simp: kernUpdatePos_def ebind_Inr Let_def)
  from p v have pv: "p = pos ! nat index" "v = vel ! nat index" and bnd: "0 \<le> index" "index < int (length pos)"
    by (simp_all add: rd_Inr)
  from w bnd have "r = (let thisPos = t;
                 thisPos = thisPos\<lparr>vx := if vx thisPos < - scene_scale then scene_scale else vx thisPos\<rparr>;
                 thisPos = thisPos\<lparr>vy := if vy thisPos < - scene_scale then scene_scale else vy thisPos\<rparr>;
                 thisPos = thisPos\<lparr>vz := if vz thisPos < - scene_scale then scene_scale else vz thisPos\<rparr>;
                 thisPos = thisPos\<lparr>vx := if vx thisPos > scene_scale then - scene_scale else vx thisPos\<rparr>;
                 thisPos = thisPos\<lparr>vy := if vy thisPos > scene_scale then - scene_scale else vy thisPos\<rparr>;
                 thisPos = thisPos\<lparr>vz := if vz thisPos > scene_scale then - scene_scale else vz thisPos\<rparr>
             in thisPos)"
    by (simp add: wr_Inr assms(3,4) pv)
  then show ?thesis
    by (simp add: Let_def scene_scale_def)
qed

theorem kernUpdatePos_wrap_witness:
  "kernUpdatePos 1 1 [\<lparr>vx = 99, vy = - 99, vz = 5\<rparr>] [\<lparr>vx = 2, vy = - 2, vz = 1\<rparr>] 0
     = Inr [\<lparr>vx = - 100, vy = 100, vz = 6\<rparr>] \<and> (0::int) < 1 \<and>
   vx (vadd \<lparr>vx = 99, vy = - 99, vz = 5\<rparr> (vscale \<lparr>vx = 2, vy = - 2, vz = 1\<rparr> 1)) > scene_scale \<and>
   vy (vadd \<lparr>vx = 99, vy = - 99, vz = 5\<rparr> (vscale \<lparr>vx = 2, vy = - 2, vz = 1\<rparr> 1)) < - scene_scale \<and>
   - scene_scale \<le> vz (vadd \<lparr>vx = 99, vy = - 99, vz = 5\<rparr> (vscale \<lparr>vx = 2, vy = - 2, vz = 1\<rparr> 1)) \<and>
   vz (vadd \<lparr>vx = 99, vy = - 99, vz = 5\<rparr> (vscale \<lparr>vx = 2, vy = - 2, vz = 1\<rparr> 1)) \<le> scene_scale \<and>
   vx \<lparr>vx = - 100, vy = 100, vz = 6\<rparr> = - scene_scale \<and>
   vy \<lparr>vx = - 100, vy = 100, vz = 6\<rparr> = scene_scale \<and>
   vz \<lparr>vx = - 100, vy = 100, vz = 6\<rparr> = 6"
proof -
  have run: "kernUpdatePos 1 1 [\<lparr>vx = 99, vy = - 99, vz = 5\<rparr>] [\<lparr>vx = 2, vy = - 2, vz = 1\<rparr>] 0
     = Inr [\<lparr>vx = - 100, vy = 100, vz = 6\<rparr>]"
    by (simp add: kernUpdatePos_def rd_def wr_def vadd_def vscale_def scene_scale_def)
  show ?thesis
    using kernUpdatePos_wrap [OF run, of _ "\<lparr>vx = - 100, vy = 100, vz = 6\<rparr>"] run
    by (simp add: vadd_def vscale_def scene_scale_def)
qed

text \<open>
  The claim as first stated fails: a coordinate exactly equal to \<open>scene_scale\<close> is stored
  as it is, since the second comparison is a strict one.
\<close>

theorem kernUpdatePos_edge_counterexample:
  "kernUpdatePos 1 1 [\<lparr>vx = scene_scale, vy = 0, vz = 0\<rparr>] [\<lparr>vx = 0, vy = 0, vz = 0\<rparr>] 0
     = Inr [\<lparr>vx = scene_scale, vy = 0, vz = 0\<rparr>] \<and>
   vx (vadd \<lparr>vx = scene_scale, vy = 0, vz = 0\<rparr> (vscale \<lparr>vx = 0, vy = 0, vz = 0\<rparr> 1)) = scene_scale \<and>
   scene_scale \<noteq> - scene_scale"
  by (simp add: kernUpdatePos_def rd_def wr_def vadd_def vscale_def scene_scale_def)

subsection \<open>Coordinate to cell\<close>

lemma int_cast_nonneg: "0 \<le> f \<Longrightarrow> int_cast f = \<lfloor>f\<rfloor>"
  by (simp add: int_cast_def)

lemma int_cast_integral:
  assumes "real_of_int \<lfloor>f\<rfloor> = f" shows "int_cast f = \<lfloor>f\<rfloor>"
proof -
  from assms obtain n where n: "f = real_of_int n" by metis
  have "\<lfloor>- real_of_int n\<rfloor> = - n"
    by (simp flip: of_int_minus)
  then show ?thesis by (simp add: int_cast_def n)
qed

lemma int_cast_negative: 
  assumes "f < 0" "real_of_int \<lfloor>f\<rfloor> \<noteq> f" shows "int_cast f = \<lfloor>f\<rfloor> + 1"
proof -
  have "\<lceil>f\<rceil> = \<lfloor>f\<rfloor> + 1" using assms(2)
    by (metis ceiling_altdef)
  then show ?thesis using assms(1) by (simp add: int_cast_def ceiling_def)
qed

text \<open>
  Claim C5, as amended. With \<open>c = (location - gridMin) * inverseCellWidth\<close>, \<open>boidGrid\<close>
  returns on each axis the floor of the coordinate of \<open>c\<close> when that coordinate is
  nonnegative or a whole number, and the floor plus one (rounding toward zero) when it is
  negative and not a whole number.
\<close>

theorem boidGrid_truncates:
  assumes "c = vscale (vsub location gridMin) inverseCellWidth"
    and "g = boidGrid location gridMin inverseCellWidth"
  shows "(0 \<le> vx c \<or> real_of_int \<lfloor>vx c\<rfloor> = vx c \<longrightarrow> ix g = \<lfloor>vx c\<rfloor>) \<and>
         (vx c < 0 \<and> real_of_int \<lfloor>vx c\<rfloor> \<noteq> vx c \<longrightarrow> ix g = \<lfloor>vx c\<rfloor> + 1) \<and>
         (0 \<le> vy c \<or> real_of_int \<lfloor>vy c\<rfloor> = vy c \<longrightarrow> iy g = \<lfloor>vy c\<rfloor>) \<and>
         (vy c < 0 \<and> real_of_int \<lfloor>vy c\<rfloor> \<noteq> vy c \<longrightarrow> iy g = \<lfloor>vy c\<rfloor> + 1) \<and>
         (0 \<le> vz c \<or> real_of_int \<lfloor>vz c\<rfloor> = vz c \<longrightarrow> iz g = \<lfloor>vz c\<rfloor>) \<and>
         (vz c < 0 \<and> real_of_int \<lfloor>vz c\<rfloor> \<noteq> vz c \<longrightarrow> iz g = \<lfloor>vz c\<rfloor> + 1)"
  using int_cast_nonneg int_cast_integral int_cast_negative
  by (simp add: assms boidGrid_def Let_def)

theorem boidGrid_truncates_witness:
  "vx (vscale (vsub \<lparr>vx = - 130, vy = 0, vz = - 160\<rparr> \<lparr>vx = - 120, vy = - 120, vz = - 120\<rparr>) (1 / 40)) = - (1 / 4) \<and>
   vy (vscale (vsub \<lparr>vx = - 130, vy = 0, vz = - 160\<rparr> \<lparr>vx = - 120, vy = - 120, vz = - 120\<rparr>) (1 / 40)) = 3 \<and>
   vz (vscale (vsub \<lparr>vx = - 130, vy = 0, vz = - 160\<rparr> \<lparr>vx = - 120, vy = - 120, vz = - 120\<rparr>) (1 / 40)) = - 1 \<and>
   boidGrid \<lparr>vx = - 130, vy = 0, vz = - 160\<rparr> \<lparr>vx = - 120, vy = - 120, vz = - 120\<rparr> (1 / 40)
     = \<lparr>ix = \<lfloor>- (1 / 4) :: real\<rfloor> + 1, iy = \<lfloor>3 :: real\<rfloor>, iz = \<lfloor>- 1 :: real\<rfloor>\<rparr>"
  using boidGrid_truncates [OF refl refl, of "\<lparr>vx = - 130, vy = 0, vz = - 160\<rparr>"
      "\<lparr>vx = - 120, vy = - 120, vz = - 120\<rparr>" "1 / 40"]
  by (simp add: vscale_def vsub_def)

text \<open>
  The claim as first stated fails for a negative coordinate: at \<open>- 1 / 4\<close> the cast gives
  \<open>0\<close> and the floor is \<open>- 1\<close>.
\<close>

theorem boidGrid_floor_counterexample:
  "boidGrid \<lparr>vx = - 130, vy = 0, vz = 0\<rparr> \<lparr>vx = - 120, vy = - 120, vz = - 120\<rparr> (1 / 40)
     = \<lparr>ix = 0, iy = 3, iz = 3\<rparr> \<and>
   \<lfloor>(- 130 - (- 120)) * (1 / 40 :: real)\<rfloor> = - 1"
  by (simp add: boidGrid_def vscale_def vsub_def int_cast_def)

subsection \<open>Separation of two particles\<close>

lemma sqrt_hundredth: "sqrt (1 / 100) = 1 / 10"
  by (rule real_sqrt_unique) (simp_all add: power2_eq_square)

text \<open>
  Claim C9. For the two particles at \<open>(0,0,0)\<close> and \<open>(1,0,0)\<close>, with
  \<open>rule2Distance = 4\<close> and \<open>rule2Scale = 1/10\<close>, \<open>rule2\<close> returns \<open>(-1/10, 0, 0)\<close> for
  the particle at the origin and \<open>(1/10, 0, 0)\<close> for the other one, each of length
  \<open>1/10\<close> and pointing away from the other particle.
\<close>

theorem rule2_two_particles:
  "rule2 2 0 [\<lparr>vx = 0, vy = 0, vz = 0\<rparr>, \<lparr>vx = 1, vy = 0, vz = 0\<rparr>] rule2Scale
     = Inr \<lparr>vx = - (1 / 10), vy = 0, vz = 0\<rparr> \<and>
   rule2 2 1 [\<lparr>vx = 0, vy = 0, vz = 0\<rparr>, \<lparr>vx = 1, vy = 0, vz = 0\<rparr>] rule2Scale
     = Inr \<lparr>vx = 1 / 10, vy = 0, vz = 0\<rparr> \<and>
   glm_length \<lparr>vx = - (1 / 10), vy = 0, vz = 0\<rparr> = 1 / 10 \<and>
   glm_length \<lparr>vx = 1 / 10, vy = 0, vz = 0\<rparr> = 1 / 10 \<and>
   rule2Distance = 4 \<and> rule2Scale = 1 / 10"
  by (simp add: rule2_def rule2_body_def ebind_def rd_def vsub_def vzero_def vscale_def
      glm_length_def glm_length_f32_def vsub_f32_def f32_values rule2Distance_def rule2Scale_def
      upto.simps sqrt_hundredth)

subsection \<open>Loops\<close>

lemma for_loop_upto:
  assumes "P a s"
    and "\<And>i t. a \<le> i \<Longrightarrow> i \<le> b \<Longrightarrow> P i t \<Longrightarrow> \<exists>t'. body t i = Inr t' \<and> P (i + 1) t'"
    and "a \<le> b + 1"
  shows "\<exists>s'. for_loop body [a..b] s = Inr s' \<and> P (b + 1) s'"
  using assms
proof (induction "nat (b + 1 - a)" arbitrary: a s)
  case 0
  then have "a = b + 1" by simp
  with "0.prems"(1) show ?case by simp
next
  case (Suc n)
  then have le: "a \<le> b" by simp
  from Suc.prems(2) [OF _ le Suc.prems(1)] obtain t where t: "body s a = Inr t" "P (a + 1) t"
    by auto
  have "\<exists>s'. for_loop body [a + 1..b] t = Inr s' \<and> P (b + 1) s'"
  proof (rule Suc.hyps(1))
    show "n = nat (b + 1 - (a + 1))" using Suc.hyps(2) by simp
    show "P (a + 1) t" by (rule t)
    show "\<And>i u. a + 1 \<le> i \<Longrightarrow> i \<le> b \<Longrightarrow> P i u \<Longrightarrow> \<exists>t'. body u i = Inr t' \<and> P (i + 1) t'"
      using Suc.prems(2) by simp
    show "a + 1 \<le> b + 1" using le by simp
  qed
  then show ?case
    using le t(1) by (simp add: upto_rec1 [of a b])
qed

lemma for_loop_unchanged:
  "(\<And>i. i \<in> set xs \<Longrightarrow> body s i = Inr s) \<Longrightarrow> for_loop body xs s = Inr s"
  by (induction xs) simp_all

lemma for_loop_invariant:
  "for_loop body xs s = Inr s' \<Longrightarrow> Q s \<Longrightarrow>
   (\<And>t i t'. Q t \<Longrightarrow> body t i = Inr t' \<Longrightarrow> Q t') \<Longrightarrow> Q s'"
  by (induction xs arbitrary: s) (auto simp: ebind_Inr)

lemma cell_loop_invariant:
  "cell_loop body gs s = Inr s' \<Longrightarrow> Q s \<Longrightarrow>
   (\<And>t g t'. Q t \<Longrightarrow> body t g = Inr t' \<Longrightarrow> Q t') \<Longrightarrow> Q s'"
  by (induction gs arbitrary: s) (auto simp: ebind_Inr split: if_splits)

lemma scan_cell_invariant:
  "scan_cell starts ends body s g = Inr s' \<Longrightarrow> Q s \<Longrightarrow>
   (\<And>t i t'. Q t \<Longrightarrow> body t i = Inr t' \<Longrightarrow> Q t') \<Longrightarrow> Q s'"
  unfolding scan_cell_def by (auto simp: ebind_Inr elim: for_loop_invariant)

lemma launch_covers: "0 \<le> n \<Longrightarrow> n \<le> fullBlocksPerGrid n * blockSize"
  unfolding fullBlocksPerGrid_def blockSize_def by simp

lemma launch_nonneg: "0 \<le> n \<Longrightarrow> 0 \<le> fullBlocksPerGrid n * blockSize"
  unfolding fullBlocksPerGrid_def blockSize_def by simp

subsection \<open>Index pairs after the sort\<close>

lemma kernComputeIndices_launch:
  assumes "int (length pos) = N" "int (length indices) = N" "int (length gridIndices) = N"
  shows "\<exists>gi. launch N (kernComputeIndices N gridResolution gridMin inverseCellWidth pos)
            (indices, gridIndices) = Inr ([0..N - 1], gi) \<and> int (length gi) = N"
proof -
  let ?P = "\<lambda>i (bufs :: int list \<times> int list). int (length (fst bufs)) = N \<and> int (length (snd bufs)) = N \<and>
              (\<forall>j. 0 \<le> j \<and> j < min i N \<longrightarrow> fst bufs ! nat j = j)"
  have N0: "0 \<le> N" using assms(1) by linarith
  have "\<exists>s'. for_loop (kernComputeIndices N gridResolution gridMin inverseCellWidth pos)
          [0..fullBlocksPerGrid N * blockSize - 1] (indices, gridIndices) = Inr s'
          \<and> ?P (fullBlocksPerGrid N * blockSize - 1 + 1) s'"
  proof (rule for_loop_upto [where P = ?P])
    show "?P 0 (indices, gridIndices)" using assms by simp
    show "0 \<le> fullBlocksPerGrid N * blockSize - 1 + 1" using launch_nonneg [OF N0] by simp
  next
    fix i :: int and t :: "int list \<times> int list"
    assume i: "0 \<le> i" and inv: "?P i t"
    show "\<exists>t'. kernComputeIndices N gridResolution gridMin inverseCellWidth pos t i = Inr t' \<and> ?P (i + 1) t'"
    proof (cases "i \<ge> N")
      case True
      then show ?thesis using inv by (simp add: kernComputeIndices_def)
    next
      case False
      then have "i < int (length pos)" "i < int (length (fst t))" "i < int (length (snd t))"
        using assms inv by simp_all
      moreover have "\<And>j. 0 \<le> j \<Longrightarrow> j < min (i + 1) N \<Longrightarrow> (fst t)[nat i := i] ! nat j = j"
      proof -
        fix j assume j: "0 \<le> j" "j < min (i + 1) N"
        show "(fst t)[nat i := i] ! nat j = j"
        proof (cases "j = i")
          case True
          then show ?thesis using i \<open>i < int (length (fst t))\<close> by simp
        next
          case False
          then have "j < min i N" using j by simp
          then have "fst t ! nat j = j" using inv j(1) by blast
          moreover have "nat i \<noteq> nat j" using False i j(1) by simp
          ultimately show ?thesis by simp
        qed
      qed
      ultimately show ?thesis using False i inv
        by (simp add: kernComputeIndices_def rd_def wr_def Let_def)
    qed
  qed
  then obtain ai gi where run: "launch N (kernComputeIndices N gridResolution gridMin inverseCellWidth pos)
            (indices, gridIndices) = Inr (ai, gi)"
    and len: "int (length ai) = N" "int (length gi) = N"
    and nth: "\<forall>j. 0 \<le> j \<and> j < min (fullBlocksPerGrid N * blockSize) N \<longrightarrow> ai ! nat j = j"
    by (auto simp: launch_def)
  have "ai = [0..N - 1]"
  proof (rule nth_equalityI)
    show "length ai = length [0..N - 1]" using len(1) by simp
  next
    fix k assume k: "k < length ai"
    then have "int k < N" using len(1) by simp
    then have "ai ! nat (int k) = int k"
      using nth [rule_format, of "int k"] launch_covers [OF N0] by simp
    moreover have "[0..N - 1] ! k = 0 + int k"
      by (rule nth_upto) (use \<open>int k < N\<close> in simp)
    ultimately show "ai ! k = [0..N - 1] ! k" by simp
  qed
  with run len(2) show ?thesis by blast
qed

lemma sort_by_key_props:
  assumes "length keys = length vals" and "sort_by_key keys vals = (ks, vs)"
  shows "mset vs = mset vals" and "sorted ks" and "mset (zip ks vs) = mset (zip keys vals)"
    and "length ks = length vs"
proof -
  from assms(2) have ks: "ks = map fst (sort_key fst (zip keys vals))"
    and vs: "vs = map snd (sort_key fst (zip keys vals))"
    by (simp_all add: sort_by_key_def Let_def)
  have "mset vs = image_mset snd (mset (sort_key fst (zip keys vals)))" by (simp add: vs)
  also have "\<dots> = mset (map snd (zip keys vals))" by simp
  also have "\<dots> = mset vals" using assms(1) by simp
  finally show "mset vs = mset vals" .
  show "sorted ks" unfolding ks by (rule sorted_sort_key)
  show "mset (zip ks vs) = mset (zip keys vals)" by (simp add: ks vs zip_map_fst_snd)
  show "length ks = length vs" by (simp add: ks vs)
qed

text \<open>
  Claim C6. With the three arrays allocated for \<open>N\<close> particles, the launch of
  \<open>kernComputeIndices\<close> returns, and after the sort by key the array of particle indices
  is a permutation of \<open>0, \<dots>, N - 1\<close>: every one of these values occurs exactly once and
  no other value occurs. The keys are non-decreasing, and the sort keeps every index
  paired with its key.
\<close>

theorem sorted_indices_permutation:
  assumes "int (length pos) = N" and "int (length indices) = N" and "int (length gridIndices) = N"
  shows "\<exists>ai gi keys vals.
           launch N (kernComputeIndices N gridResolution gridMin inverseCellWidth pos)
             (indices, gridIndices) = Inr (ai, gi) \<and>
           sort_by_key gi ai = (keys, vals) \<and>
           mset vals = mset [0..N - 1] \<and>
           (\<forall>v. count (mset vals) v = (if 0 \<le> v \<and> v < N then 1 else 0)) \<and>
           sorted keys \<and> mset (zip keys vals) = mset (zip gi ai)"
proof -
  from kernComputeIndices_launch [OF assms] obtain gi where
    run: "launch N (kernComputeIndices N gridResolution gridMin inverseCellWidth pos)
            (indices, gridIndices) = Inr ([0..N - 1], gi)" and len: "int (length gi) = N"
    by blast
  obtain keys vals where srt: "sort_by_key gi [0..N - 1] = (keys, vals)"
    by (cases "sort_by_key gi [0..N - 1]")
  have eq: "length gi = length [0..N - 1]" using len by simp
  note props = sort_by_key_props [OF eq srt]
  have "\<And>v. count (mset [0..N - 1]) v = (if 0 \<le> v \<and> v < N then 1 else 0)"
    using distinct_upto [of 0 "N - 1"] unfolding distinct_count_atmost_1 by auto
  with props(1) have "\<forall>v. count (mset vals) v = (if 0 \<le> v \<and> v < N then 1 else 0)"
    by simp
  with run srt props show ?thesis by blast
qed

theorem sorted_indices_permutation_witness:
  "int (length [\<lparr>vx = 100, vy = 0, vz = 0\<rparr>, \<lparr>vx = - 100, vy = 40, vz = 0\<rparr>, \<lparr>vx = 0, vy = 0, vz = 0\<rparr>]) = 3 \<and>
   int (length [7, 7, 7 :: int]) = 3 \<and>
   (\<exists>ai gi keys vals.
      launch 3 (kernComputeIndices 3 gridSideCount gridMinimum gridInverseCellWidth
          [\<lparr>vx = 100, vy = 0, vz = 0\<rparr>, \<lparr>vx = - 100, vy = 40, vz = 0\<rparr>, \<lparr>vx = 0, vy = 0, vz = 0\<rparr>])
        ([7, 7, 7], [7, 7, 7]) = Inr (ai, gi) \<and>
      sort_by_key gi ai = (keys, vals) \<and>
      mset vals = mset [0..3 - 1] \<and>
      (\<forall>v. count (mset vals) v = (if 0 \<le> v \<and> v < 3 then 1 else 0)) \<and>
      sorted keys \<and> mset (zip keys vals) = mset (zip gi ai))"
  using sorted_indices_permutation [of
      "[\<lparr>vx = 100, vy = 0, vz = 0\<rparr>, \<lparr>vx = - 100, vy = 40, vz = 0\<rparr>, \<lparr>vx = 0, vy = 0, vz = 0\<rparr>]"
      3 "[7, 7, 7]" "[7, 7, 7]" gridSideCount gridMinimum gridInverseCellWidth]
  by simp

subsection \<open>Cell ranges of the last occupied cell\<close>

text \<open>
  Claim C1, evaluated where the code departs from it. Two particles at \<open>(0,0,0)\<close> and
  \<open>(1,0,0)\<close> share cell \<open>129\<close>. After the grid set-up the start entry of the cell is
  \<open>0\<close>, and its end entry is still the sentinel \<open>- 1\<close>, not \<open>N = 2\<close>: the thread of the
  last slot returns at the test \<open>priorGridLoc == currentGridLoc\<close> before it reaches the
  assignment of \<open>N\<close>. With a single particle the thread of slot \<open>0\<close> returns right after
  writing the start entry, and the end entry is not set either.
\<close>

theorem last_cell_end_not_set:
  "ebind (gridSetup 2 [\<lparr>vx = 0, vy = 0, vz = 0\<rparr>, \<lparr>vx = 1, vy = 0, vz = 0\<rparr>]
            \<lparr>dev_particleArrayIndices = [0, 0], dev_particleGridIndices = [0, 0],
             dev_gridCellStartIndices = replicate 216 0, dev_gridCellEndIndices = replicate 216 0\<rparr>)
     (\<lambda>b. Inr (dev_particleGridIndices b, dev_gridCellStartIndices b ! 129, dev_gridCellEndIndices b ! 129))
     = Inr ([129, 129], 0, - 1) \<and>
   launch 1 (kernIdentifyCellStartEnd 1 [0]) ([- 1], [- 1]) = Inr ([0], [- 1])"
  by code_simp

text \<open>
  The same holds in general: whenever the last two sorted slots lie in one cell, the end
  entry of that cell is the sentinel after the launch.
\<close>

lemma last_cell_end_stays_unset:
  assumes N: "int (length keys) = N" "2 \<le> N"
    and srt: "sorted keys"
    and rng: "\<forall>k \<in> set keys. 0 \<le> k \<and> k < int (length starts) \<and> k < int (length ends)"
    and same: "keys ! nat (N - 1) = keys ! nat (N - 2)"
    and reset: "ends ! nat (keys ! nat (N - 1)) = - 1"
  shows "\<exists>starts' ends'. launch N (kernIdentifyCellStartEnd N keys) (starts, ends) = Inr (starts', ends')
           \<and> ends' ! nat (keys ! nat (N - 1)) = - 1"
proof -
  define c where "c = keys ! nat (N - 1)"
  let ?P = "\<lambda>(i :: int) (tabs :: int list \<times> int list).
      length (fst tabs) = length starts \<and> length (snd tabs) = length ends \<and> snd tabs ! nat c = - 1"
  have key: "0 \<le> keys ! nat i \<and> keys ! nat i < int (length starts) \<and> keys ! nat i < int (length ends)"
    if "0 \<le> i" "i < N" for i
    using rng that N(1) by (simp add: nat_less_iff)
  have le_c: "keys ! nat i \<le> c" if "0 \<le> i" "i < N" for i
    unfolding c_def using srt that N(1) by (intro sorted_nth_mono) (simp_all add: nat_less_iff nat_le_iff)
  have "\<exists>s'. for_loop (kernIdentifyCellStartEnd N keys) [0..fullBlocksPerGrid N * blockSize - 1]
          (starts, ends) = Inr s' \<and> ?P (fullBlocksPerGrid N * blockSize - 1 + 1) s'"
  proof (rule for_loop_upto [where P = ?P])
    show "?P 0 (starts, ends)" using reset by (simp add: c_def)
    show "0 \<le> fullBlocksPerGrid N * blockSize - 1 + 1"
      using launch_nonneg [of N] N(2) by simp
  next
    fix i :: int and t :: "int list \<times> int list"
    assume i: "0 \<le> i" and inv: "?P i t"
    show "\<exists>t'. kernIdentifyCellStartEnd N keys t i = Inr t' \<and> ?P (i + 1) t'"
    proof (cases "i \<ge> N")
      case True
      then show ?thesis using inv by (simp add: kernIdentifyCellStartEnd_def)
    next
      case False
      then have iN: "i < N" by simp
      have cur: "rd keys i = Inr (keys ! nat i)"
        using i iN N(1) by (simp add: rd_def)
      show ?thesis
      proof (cases "i = 0")
        case True
        then show ?thesis
          using inv key [of 0] N(2) cur iN
          by (simp add: kernIdentifyCellStartEnd_def wr_def)
      next
        case False
        then have i1: "0 \<le> i - 1" "i - 1 < N" using i iN by simp_all
        have prior: "rd keys (i - 1) = Inr (keys ! nat (i - 1))"
          using i1 N(1) by (simp add: rd_def)
        show ?thesis
        proof (cases "keys ! nat (i - 1) = keys ! nat i")
          case True
          then show ?thesis
            using inv cur prior iN \<open>i \<noteq> 0\<close> by (simp add: kernIdentifyCellStartEnd_def)
        next
          case neq: False
          have "keys ! nat (i - 1) \<le> keys ! nat i"
            using srt i1 iN N(1) by (intro sorted_nth_mono) (simp_all add: nat_less_iff nat_le_iff)
          with neq le_c [OF i iN] have ne_c: "keys ! nat (i - 1) \<noteq> c" by simp
          have not_last: "i \<noteq> N - 1"
          proof
            assume last: "i = N - 1"
            then have "i - 1 = N - 2" by simp
            then have "keys ! nat (i - 1) = keys ! nat i"
              using same last by simp
            with neq show False by simp
          qed
          have "nat (keys ! nat (i - 1)) \<noteq> nat c"
            using ne_c key [OF i1] le_c [OF i iN] key [OF i iN] by arith
          then show ?thesis
            using inv cur prior iN \<open>i \<noteq> 0\<close> neq not_last key [OF i1] key [OF i iN]
            by (simp add: kernIdentifyCellStartEnd_def wr_def)
        qed
      qed
    qed
  qed
  then show ?thesis
    by (auto simp: launch_def c_def)
qed

text \<open>
  A consequence for the grid-based velocity change: in the scenario above the scan of
  cell \<open>129\<close> runs over the empty range from \<open>0\<close> to \<open>- 1\<close>, so the scattered variant
  returns the zero vector for particle \<open>0\<close>, where the brute-force variant sees the
  neighbor at distance \<open>1\<close>.
\<close>

lemma grid_scan_skips_last_cell:
  "ebind (gridSetup 2 [\<lparr>vx = 0, vy = 0, vz = 0\<rparr>, \<lparr>vx = 1, vy = 0, vz = 0\<rparr>]
            \<lparr>dev_particleArrayIndices = [0, 0], dev_particleGridIndices = [0, 0],
             dev_gridCellStartIndices = replicate 216 0, dev_gridCellEndIndices = replicate 216 0\<rparr>)
     (\<lambda>b. ebind (findGridCells 0 gridSideCount gridMinimum gridInverseCellWidth gridCellWidth
                    (dev_gridCellStartIndices b)
                    [\<lparr>vx = 0, vy = 0, vz = 0\<rparr>, \<lparr>vx = 1, vy = 0, vz = 0\<rparr>] (replicate 9 0))
       (\<lambda>used. computeVelocityChangeScattered 0 (dev_gridCellStartIndices b) (dev_gridCellEndIndices b)
                   (dev_particleArrayIndices b)
                   [\<lparr>vx = 0, vy = 0, vz = 0\<rparr>, \<lparr>vx = 1, vy = 0, vz = 0\<rparr>] [vzero, vzero] used))
     = Inr vzero \<and>
   computeVelocityChange 2 0 [\<lparr>vx = 0, vy = 0, vz = 0\<rparr>, \<lparr>vx = 1, vy = 0, vz = 0\<rparr>] [vzero, vzero]
     = Inr \<lparr>vx = - (9 / 100), vy = 0, vz = 0\<rparr>"
proof -
  have built: "gridSetup 2 [\<lparr>vx = 0, vy = 0, vz = 0\<rparr>, \<lparr>vx = 1, vy = 0, vz = 0\<rparr>]
            \<lparr>dev_particleArrayIndices = [0, 0], dev_particleGridIndices = [0, 0],
             dev_gridCellStartIndices = replicate 216 0, dev_gridCellEndIndices = replicate 216 0\<rparr>
     = Inr \<lparr>dev_particleArrayIndices = [0, 1], dev_particleGridIndices = [129, 129],
             dev_gridCellStartIndices = (replicate 216 (- 1))[129 := 0],
             dev_gridCellEndIndices = replicate 216 (- 1)\<rparr>"
    by code_simp
  have cells: "findGridCells 0 gridSideCount gridMinimum gridInverseCellWidth gridCellWidth
       ((replicate 216 (- 1))[129 := 0])
       [\<lparr>vx = 0, vy = 0, vz = 0\<rparr>, \<lparr>vx = 1, vy = 0, vz = 0\<rparr>] (replicate 9 0)
     = Inr [129, - 1, 0, 0, 0, 0, 0, 0, 0]"
    by code_simp
  have grid: "computeVelocityChangeScattered 0 ((replicate 216 (- 1))[129 := 0]) (replicate 216 (- 1))
       [0, 1] [\<lparr>vx = 0, vy = 0, vz = 0\<rparr>, \<lparr>vx = 1, vy = 0, vz = 0\<rparr>] [vzero, vzero]
       [129, - 1, 0, 0, 0, 0, 0, 0, 0] = Inr vzero"
    by (simp add: computeVelocityChangeScattered_def rule1Scatter_def rule1Scatter_loops_def
        rule1_finish_def rule2Scatter_def rule3Scatter_def rule3Scatter_loops_def rule3_finish_def
        scan_cell_def rd_def vscale_def vadd_def vzero_def)
  have brute: "computeVelocityChange 2 0 [\<lparr>vx = 0, vy = 0, vz = 0\<rparr>, \<lparr>vx = 1, vy = 0, vz = 0\<rparr>]
       [vzero, vzero] = Inr \<lparr>vx = - (9 / 100), vy = 0, vz = 0\<rparr>"
    by (simp add: computeVelocityChange_def rule1_def rule1_loops_def rule1_body_def rule1_finish_def
        rule2_def rule2_body_def rule3_def rule3_loops_def rule3_body_def rule3_finish_def
        rule1Distance_def rule2Distance_def rule3Distance_def rule1Scale_def rule2Scale_def
        rule3Scale_def vdiv_def fdiv_def rd_def upto.simps glm_length_f32_def vsub_f32_def
        f32_values vsub_def vscale_def
        vadd_def vzero_def)
  show ?thesis
    by (simp add: built cells grid brute)
qed

subsection \<open>Candidate cells\<close>

text \<open>
  Claim C3, evaluated where the code departs from it. A particle at \<open>(100,0,0)\<close>, on the
  upper face of the domain, has its upper probe point in cell coordinate \<open>(6,3,3)\<close>.
  The grid has \<open>6\<close> cells per side, so \<open>6\<close> is out of range, but \<open>gridInRange\<close>
  compares with \<open>\<le>\<close> and accepts it. The coordinate linearizes to \<open>132\<close>, the id of the
  cell \<open>(0,4,3)\<close> on the far side of the grid; a second particle at \<open>(-100,40,0)\<close>
  occupies that cell, and \<open>132\<close> is written to the candidate list. For a particle at
  \<open>(0,0,100)\<close> the accepted coordinate is \<open>(3,3,6)\<close>, with id \<open>237\<close>: the start
  table has \<open>216\<close> entries, and the enumerator reads past its end.
\<close>

theorem out_of_range_probe_accepted:
  "ebind (gridSetup 2 [\<lparr>vx = 100, vy = 0, vz = 0\<rparr>, \<lparr>vx = - 100, vy = 40, vz = 0\<rparr>]
            \<lparr>dev_particleArrayIndices = [0, 0], dev_particleGridIndices = [0, 0],
             dev_gridCellStartIndices = replicate 216 0, dev_gridCellEndIndices = replicate 216 0\<rparr>)
     (\<lambda>b. ebind (findGridCells 0 gridSideCount gridMinimum gridInverseCellWidth gridCellWidth
                    (dev_gridCellStartIndices b)
                    [\<lparr>vx = 100, vy = 0, vz = 0\<rparr>, \<lparr>vx = - 100, vy = 40, vz = 0\<rparr>] (replicate 9 0))
       (\<lambda>used. Inr (dev_particleGridIndices b, take 3 used)))
     = Inr ([131, 132], [132, 131, - 1]) \<and>
   boidGrid (vadd \<lparr>vx = 100, vy = 0, vz = 0\<rparr>
               \<lparr>vx = gridCellWidth * (1 / 2), vy = gridCellWidth * (1 / 2), vz = gridCellWidth * (1 / 2)\<rparr>)
     gridMinimum gridInverseCellWidth = \<lparr>ix = 6, iy = 3, iz = 3\<rparr> \<and>
   gridInRange \<lparr>ix = 6, iy = 3, iz = 3\<rparr> gridSideCount \<and>
   gridIndex3Dto1D 6 3 3 gridSideCount = 132 \<and>
   gridSideCount = 6 \<and>
   ebind (gridSetup 1 [\<lparr>vx = 0, vy = 0, vz = 100\<rparr>]
            \<lparr>dev_particleArrayIndices = [0], dev_particleGridIndices = [0],
             dev_gridCellStartIndices = replicate 216 0, dev_gridCellEndIndices = replicate 216 0\<rparr>)
     (\<lambda>b. findGridCells 0 gridSideCount gridMinimum gridInverseCellWidth gridCellWidth
              (dev_gridCellStartIndices b) [\<lparr>vx = 0, vy = 0, vz = 100\<rparr>] (replicate 9 0))
     = Inl OutOfBounds \<and>
   boidGrid (vadd \<lparr>vx = 0, vy = 0, vz = 100\<rparr>
               \<lparr>vx = gridCellWidth * (1 / 2), vy = gridCellWidth * (1 / 2), vz = gridCellWidth * (1 / 2)\<rparr>)
     gridMinimum gridInverseCellWidth = \<lparr>ix = 3, iy = 3, iz = 6\<rparr> \<and>
   gridInRange \<lparr>ix = 3, iy = 3, iz = 6\<rparr> gridSideCount \<and>
   gridIndex3Dto1D 3 3 6 gridSideCount = 237 \<and>
   gridCellCount = 216"
  by code_simp

subsection \<open>No neighbors, no velocity change\<close>

lemma vscale_vzero: "vscale vzero s = vzero"
  by (simp add: vscale_def vzero_def)

lemma vadd_vzero: "vadd vzero vzero = vzero"
  by (simp add: vadd_def vzero_def)

text \<open>
  Claim C8, as amended. For a particle \<open>iSelf\<close> among \<open>N\<close> particles such that for no
  other particle the distance the code computes, \<open>glm::length(pos[i] - pos[iSelf])\<close> in
  float arithmetic, is below \<open>rule1Distance\<close>, \<open>rule2Distance\<close> or \<open>rule3Distance\<close>,
  \<open>computeVelocityChange\<close> returns the zero vector. The single particle of \<open>N = 1\<close> is
  the case where there is no other particle at all.
\<close>

theorem isolated_particle_zero_change:
  assumes "0 \<le> iSelf" and "iSelf < N" and "N \<le> int (length pos)"
    and far1: "\<forall>i. 0 \<le> i \<and> i < N \<and> i \<noteq> iSelf \<longrightarrow>
            \<not> glm_length_f32 (vsub_f32 (pos ! nat i) (pos ! nat iSelf)) < rule1Distance"
    and far2: "\<forall>i. 0 \<le> i \<and> i < N \<and> i \<noteq> iSelf \<longrightarrow>
            \<not> glm_length_f32 (vsub_f32 (pos ! nat i) (pos ! nat iSelf)) < rule2Distance"
    and far3: "\<forall>i. 0 \<le> i \<and> i < N \<and> i \<noteq> iSelf \<longrightarrow>
            \<not> glm_length_f32 (vsub_f32 (pos ! nat i) (pos ! nat iSelf)) < rule3Distance"
  shows "computeVelocityChange N iSelf pos vel = Inr vzero"
proof -
  have others: "0 \<le> i \<and> i < N \<and> i \<noteq> iSelf"
    if "i \<in> set [0..iSelf - 1] \<or> i \<in> set [iSelf + 1..N - 1]" for i
    using that assms(1,2) by auto
  have rds: "rd pos i = Inr (pos ! nat i)" if "0 \<le> i" "i < N" for i
    using that assms(3) by (simp add: rd_def)
  have self: "rd pos iSelf = Inr (pos ! nat iSelf)"
    using rds assms(1,2) by simp
  have b1: "rule1_body pos iSelf acc i = Inr acc"
    if "i \<in> set [0..iSelf - 1] \<or> i \<in> set [iSelf + 1..N - 1]" for i acc
    using others [OF that] far1 rds self by (simp add: rule1_body_def)
  have b2: "rule2_body pos iSelf c i = Inr c"
    if "i \<in> set [0..iSelf - 1] \<or> i \<in> set [iSelf + 1..N - 1]" for i c
    using others [OF that] far2 rds self by (simp add: rule2_body_def)
  have b3: "rule3_body pos vel iSelf acc i = Inr acc"
    if "i \<in> set [0..iSelf - 1] \<or> i \<in> set [iSelf + 1..N - 1]" for i acc
    using others [OF that] far3 rds self by (simp add: rule3_body_def)
  have "for_loop (rule1_body pos iSelf) xs (vzero, 0) = Inr (vzero, 0)"
    if "xs = [0..iSelf - 1] \<or> xs = [iSelf + 1..N - 1]" for xs
    by (rule for_loop_unchanged) (use that b1 in blast)
  then have "rule1_loops N iSelf pos = Inr (vzero, 0)"
    by (simp add: rule1_loops_def)
  then have r1: "rule1 N iSelf pos rule1Scale = Inr vzero"
    by (simp add: rule1_def rule1_finish_def)
  have "for_loop (rule2_body pos iSelf) xs vzero = Inr vzero"
    if "xs = [0..iSelf - 1] \<or> xs = [iSelf + 1..N - 1]" for xs
    by (rule for_loop_unchanged) (use that b2 in blast)
  then have r2: "rule2 N iSelf pos rule2Scale = Inr vzero"
    by (simp add: rule2_def vscale_vzero)
  have "for_loop (rule3_body pos vel iSelf) xs (vzero, 0) = Inr (vzero, 0)"
    if "xs = [0..iSelf - 1] \<or> xs = [iSelf + 1..N - 1]" for xs
    by (rule for_loop_unchanged) (use that b3 in blast)
  then have "rule3_loops N iSelf pos vel = Inr (vzero, 0)"
    by (simp add: rule3_loops_def)
  then have r3: "rule3 N iSelf pos vel rule3Scale = Inr vzero"
    by (simp add: rule3_def rule3_finish_def)
  show ?thesis
    by (simp add: computeVelocityChange_def r1 r2 r3 vadd_vzero)
qed

theorem isolated_particle_zero_change_witness:
  "\<not> glm_length_f32 (vsub_f32 \<lparr>vx = 30, vy = 0, vz = 0\<rparr> \<lparr>vx = 0, vy = 0, vz = 0\<rparr>) < rule1Distance \<and>
   \<not> glm_length_f32 (vsub_f32 \<lparr>vx = 30, vy = 0, vz = 0\<rparr> \<lparr>vx = 0, vy = 0, vz = 0\<rparr>) < rule2Distance \<and>
   \<not> glm_length_f32 (vsub_f32 \<lparr>vx = 30, vy = 0, vz = 0\<rparr> \<lparr>vx = 0, vy = 0, vz = 0\<rparr>) < rule3Distance \<and>
   computeVelocityChange 2 0 [\<lparr>vx = 0, vy = 0, vz = 0\<rparr>, \<lparr>vx = 30, vy = 0, vz = 0\<rparr>]
     [\<lparr>vx = 1, vy = 0, vz = 0\<rparr>, \<lparr>vx = 0, vy = 1, vz = 0\<rparr>] = Inr vzero"
proof -
  have one: "i = 1" if "0 \<le> i \<and> i < 2 \<and> i \<noteq> 0" for i :: int
    using that by arith
  have d: "glm_length_f32 (vsub_f32 \<lparr>vx = 30, vy = 0, vz = 0\<rparr> \<lparr>vx = 0, vy = 0, vz = 0\<rparr>) = 30"
    by (simp add: vsub_f32_def glm_length_f32_def f32_values sqrt_900)
  have "\<forall>i. 0 \<le> i \<and> i < 2 \<and> i \<noteq> 0 \<longrightarrow>
      \<not> glm_length_f32 (vsub_f32 ([\<lparr>vx = 0, vy = 0, vz = 0\<rparr>, \<lparr>vx = 30, vy = 0, vz = 0\<rparr>] ! nat i)
            ([\<lparr>vx = 0, vy = 0, vz = 0\<rparr>, \<lparr>vx = 30, vy = 0, vz = 0\<rparr>] ! nat 0)) < r"
    if "r \<le> 30" for r :: real
    using that d by (auto dest!: one)
  from this [of rule1Distance] this [of rule2Distance] this [of rule3Distance]
  show ?thesis
    using isolated_particle_zero_change [of 0 2
        "[\<lparr>vx = 0, vy = 0, vz = 0\<rparr>, \<lparr>vx = 30, vy = 0, vz = 0\<rparr>]"
        "[\<lparr>vx = 1, vy = 0, vz = 0\<rparr>, \<lparr>vx = 0, vy = 1, vz = 0\<rparr>]"] d
    by (simp add: rule1Distance_def rule2Distance_def rule3Distance_def)
qed

text \<open>
  The claim as first stated, with the distance of the positions themselves, fails at the
  rounding boundary. The two particles below lie inside the scene, and their distance is
  a little more than \<open>20\<close>: its square exceeds \<open>400\<close> by about \<open>7 / 10^7\<close>. The
  subtraction rounds both differences down, the rounded sum of the squares is
  \<open>400 - 2 powi (- 14)\<close>, and its rounded square root is \<open>20 - 2 powi (- 19)\<close>: the test of
  rule 1 succeeds and the particle at the origin side is pulled towards the other one.
\<close>

lemma boundary_length_f32:
  "glm_length_f32 (vsub_f32 \<lparr>vx = 4117 / 256, vy = 6233699 / 524288, vz = 0\<rparr>
      \<lparr>vx = - (63 / 67108864), vy = - (63 / 134217728), vz = 0\<rparr>) = 20 - 1 / 524288"
proof -
  have d: "vsub_f32 \<lparr>vx = 4117 / 256, vy = 6233699 / 524288, vz = 0\<rparr>
      \<lparr>vx = - (63 / 67108864), vy = - (63 / 134217728), vz = 0\<rparr>
      = \<lparr>vx = 4117 / 256, vy = 6233699 / 524288, vz = 0\<rparr>"
    by code_simp
  have s: "f32 (f32 (f32 (vx \<lparr>vx = 4117 / 256, vy = 6233699 / 524288, vz = 0\<rparr> * vx \<lparr>vx = 4117 / 256, vy = 6233699 / 524288, vz = 0\<rparr>)
              + f32 (vy \<lparr>vx = 4117 / 256, vy = 6233699 / 524288, vz = 0\<rparr> * vy \<lparr>vx = 4117 / 256, vy = 6233699 / 524288, vz = 0\<rparr>))
             + f32 (vz \<lparr>vx = 4117 / 256, vy = 6233699 / 524288, vz = 0::real\<rparr> * vz \<lparr>vx = 4117 / 256, vy = 6233699 / 524288, vz = 0::real\<rparr>)) = 6553599 / 16384"
    by code_simp
  have r: "f32 (sqrt (6553599 / 16384)) = real_of_int 10485759 * (2 powi (4 - 23))"
    by (rule f32_sqrt_near [where E = 4]) (simp_all add: power2_eq_square)
  show ?thesis
    unfolding glm_length_f32_def d s r by simp
qed


theorem isolated_particle_counterexample:
  "rule1Distance \<le> glm_length (vsub \<lparr>vx = 4117 / 256, vy = 6233699 / 524288, vz = 0\<rparr> \<lparr>vx = - (63 / 67108864), vy = - (63 / 134217728), vz = 0\<rparr>) \<and>
   rule2Distance \<le> glm_length (vsub \<lparr>vx = 4117 / 256, vy = 6233699 / 524288, vz = 0\<rparr> \<lparr>vx = - (63 / 67108864), vy = - (63 / 134217728), vz = 0\<rparr>) \<and>
   rule3Distance \<le> glm_length (vsub \<lparr>vx = 4117 / 256, vy = 6233699 / 524288, vz = 0\<rparr> \<lparr>vx = - (63 / 67108864), vy = - (63 / 134217728), vz = 0\<rparr>) \<and>
   computeVelocityChange 2 0 [\<lparr>vx = - (63 / 67108864), vy = - (63 / 134217728), vz = 0\<rparr>, \<lparr>vx = 4117 / 256, vy = 6233699 / 524288, vz = 0\<rparr>] [vzero, vzero]
     = Inr \<lparr>vx = 1079246911 / 6710886400, vy = 1595827007 / 13421772800, vz = 0\<rparr> \<and>
   \<lparr>vx = 1079246911 / 6710886400, vy = 1595827007 / 13421772800, vz = 0\<rparr> \<noteq> vzero"
proof -
  have "(20::real)\<^sup>2 \<le> (4117 / 256 + 63 / 67108864) * (4117 / 256 + 63 / 67108864)
          + (6233699 / 524288 + 63 / 134217728) * (6233699 / 524288 + 63 / 134217728)"
    by simp
  then have "20 \<le> sqrt ((4117 / 256 + 63 / 67108864) * (4117 / 256 + 63 / 67108864)
          + (6233699 / 524288 + 63 / 134217728) * (6233699 / 524288 + 63 / 134217728))"
    by (rule real_le_rsqrt)
  then have far: "20 \<le> glm_length (vsub \<lparr>vx = 4117 / 256, vy = 6233699 / 524288, vz = 0\<rparr> \<lparr>vx = - (63 / 67108864), vy = - (63 / 134217728), vz = 0\<rparr>)"
    by (simp add: glm_length_def vsub_def)
  have run: "computeVelocityChange 2 0 [\<lparr>vx = - (63 / 67108864), vy = - (63 / 134217728), vz = 0\<rparr>, \<lparr>vx = 4117 / 256, vy = 6233699 / 524288, vz = 0\<rparr>] [vzero, vzero]
     = Inr \<lparr>vx = 1079246911 / 6710886400, vy = 1595827007 / 13421772800, vz = 0\<rparr>"
    by (simp add: computeVelocityChange_def rule1_def rule1_loops_def rule1_body_def rule1_finish_def
        rule2_def rule2_body_def rule3_def rule3_loops_def rule3_body_def rule3_finish_def
        rule1Distance_def rule2Distance_def rule3Distance_def rule1Scale_def rule2Scale_def
        rule3Scale_def vdiv_def rd_def upto.simps boundary_length_f32 vsub_def vscale_def
        vadd_def vzero_def)
  show ?thesis
    using far run
    by (simp add: rule1Distance_def rule2Distance_def rule3Distance_def vzero_def)
qed

text \<open>
  The scattered and the coherent variant agree with this: whenever one of them returns
  for such a particle, it returns the zero vector, whatever cells it scans.
\<close>

lemma isolated_particle_zero_change_grid:
  assumes far1: "\<forall>j. 0 \<le> j \<and> j < int (length pos) \<and> j \<noteq> iSelf \<longrightarrow>
            \<not> glm_length_f32 (vsub_f32 (pos ! nat j) (pos ! nat iSelf)) < rule1Distance"
    and far2: "\<forall>j. 0 \<le> j \<and> j < int (length pos) \<and> j \<noteq> iSelf \<longrightarrow>
            \<not> glm_length_f32 (vsub_f32 (pos ! nat j) (pos ! nat iSelf)) < rule2Distance"
    and far3: "\<forall>j. 0 \<le> j \<and> j < int (length pos) \<and> j \<noteq> iSelf \<longrightarrow>
            \<not> glm_length_f32 (vsub_f32 (pos ! nat j) (pos ! nat iSelf)) < rule3Distance"
  shows "computeVelocityChangeScattered iSelf starts ends pai pos vel used = Inr d \<Longrightarrow> d = vzero"
    and "computeVelocityChangeCoherent iSelf starts ends pos vel used = Inr d \<Longrightarrow> d = vzero"
proof -
  have s1: "rule1Scatter_body pai pos iSelf t i = Inr t' \<Longrightarrow> t' = t" for t i t'
    using far1 by (auto simp: rule1Scatter_body_def ebind_Inr rd_Inr split: if_splits)
  have s2: "rule2Scatter_body pai pos iSelf t i = Inr t' \<Longrightarrow> t' = t" for t i t'
    using far2 by (auto simp: rule2Scatter_body_def ebind_Inr rd_Inr split: if_splits)
  have s3: "rule3Scatter_body pai pos vel iSelf t i = Inr t' \<Longrightarrow> t' = t" for t i t'
    using far3 by (auto simp: rule3Scatter_body_def ebind_Inr rd_Inr split: if_splits)
  have c1: "rule1Coherent_body pos iSelf t i = Inr t' \<Longrightarrow> t' = t" for t i t'
    using far1 by (auto simp: rule1Coherent_body_def ebind_Inr rd_Inr split: if_splits)
  have c2: "rule2Coherent_body pos iSelf t i = Inr t' \<Longrightarrow> t' = t" for t i t'
    using far2 by (auto simp: rule2Coherent_body_def ebind_Inr rd_Inr split: if_splits)
  have c3: "rule3Coherent_body pos vel iSelf t i = Inr t' \<Longrightarrow> t' = t" for t i t'
    using far3 by (auto simp: rule3Coherent_body_def ebind_Inr rd_Inr split: if_splits)
  have scan: "cell_loop (scan_cell starts ends body) used s = Inr s' \<Longrightarrow> s' = s"
    if "\<And>t i t'. body t i = Inr t' \<Longrightarrow> t' = t" for body :: "'s \<Rightarrow> int \<Rightarrow> error + 's" and s s'
    by (erule cell_loop_invariant [where Q = "\<lambda>t. t = s"], simp)
       (erule scan_cell_invariant [where Q = "\<lambda>t. t = s"], use that in auto)
  have r1s: "v = vzero" if "rule1Scatter iSelf starts ends pai pos used sc = Inr v" for v sc
  proof -
    from that obtain acc where
      l: "cell_loop (scan_cell starts ends (rule1Scatter_body pai pos iSelf)) used (vzero, 0) = Inr acc"
      and f: "rule1_finish pos iSelf sc acc = Inr v"
      by (auto simp: rule1Scatter_def rule1Scatter_loops_def ebind_Inr)
    from scan [OF s1 l] f show ?thesis by (simp add: rule1_finish_def)
  qed
  have r2s: "v = vzero" if "rule2Scatter iSelf starts ends pai pos used sc = Inr v" for v sc
  proof -
    from that obtain c where
      l: "cell_loop (scan_cell starts ends (rule2Scatter_body pai pos iSelf)) used vzero = Inr c"
      and f: "v = vscale c sc"
      by (auto simp: rule2Scatter_def ebind_Inr)
    from scan [OF s2 l] f show ?thesis by (simp add: vscale_vzero)
  qed
  have r3s: "v = vzero" if "rule3Scatter iSelf starts ends pai pos vel used sc = Inr v" for v sc
  proof -
    from that obtain acc where
      l: "cell_loop (scan_cell starts ends (rule3Scatter_body pai pos vel iSelf)) used (vzero, 0) = Inr acc"
      and f: "rule3_finish sc acc = Inr v"
      by (auto simp: rule3Scatter_def rule3Scatter_loops_def ebind_Inr)
    from scan [OF s3 l] f show ?thesis by (simp add: rule3_finish_def)
  qed
  have r1c: "v = vzero" if "rule1Coherent iSelf starts ends pos used sc = Inr v" for v sc
  proof -
    from that obtain acc where
      l: "cell_loop (scan_cell starts ends (rule1Coherent_body pos iSelf)) used (vzero, 0) = Inr acc"
      and f: "rule1_finish pos iSelf sc acc = Inr v"
      by (auto simp: rule1Coherent_def rule1Coherent_loops_def ebind_Inr)
    from scan [OF c1 l] f show ?thesis by (simp add: rule1_finish_def)
  qed
  have r2c: "v = vzero" if "rule2Coherent iSelf starts ends pos used sc = Inr v" for v sc
  proof -
    from that obtain c where
      l: "cell_loop (scan_cell starts ends (rule2Coherent_body pos iSelf)) used vzero = Inr c"
      and f: "v = vscale c sc"
      by (auto simp: rule2Coherent_def ebind_Inr)
    from scan [OF c2 l] f show ?thesis by (simp add: vscale_vzero)
  qed
  have r3c: "v = vzero" if "rule3Coherent iSelf starts ends pos vel used sc = Inr v" for v sc
  proof -
    from that obtain acc where
      l: "cell_loop (scan_cell starts ends (rule3Coherent_body pos vel iSelf)) used (vzero, 0) = Inr acc"
      and f: "rule3_finish sc acc = Inr v"
      by (auto simp: rule3Coherent_def rule3Coherent_loops_def ebind_Inr)
    from scan [OF c3 l] f show ?thesis by (simp add: rule3_finish_def)
  qed
  show "d = vzero" if "computeVelocityChangeScattered iSelf starts ends pai pos vel used = Inr d"
    using that
    by (auto simp: computeVelocityChangeScattered_def ebind_Inr vadd_vzero dest!: r1s r2s r3s)
  show "d = vzero" if "computeVelocityChangeCoherent iSelf starts ends pos vel used = Inr d"
    using that
    by (auto simp: computeVelocityChangeCoherent_def ebind_Inr vadd_vzero dest!: r1c r2c r3c)
qed

subsection \<open>The guarded divisions of rules 1 and 3\<close>

lemma ebind_no_div:
  "m \<noteq> Inl DivByZero \<Longrightarrow> (\<And>a. f a \<noteq> Inl DivByZero) \<Longrightarrow> ebind m f \<noteq> Inl DivByZero"
  by (cases m) simp_all

lemma rd_no_div: "rd xs i \<noteq> Inl DivByZero"
  by (simp add: rd_def)

lemma for_loop_no_div:
  "(\<And>t i. body t i \<noteq> Inl DivByZero) \<Longrightarrow> for_loop body xs s \<noteq> Inl DivByZero"
  by (induction xs arbitrary: s) (simp_all add: ebind_no_div)

lemma cell_loop_no_div:
  "(\<And>t g. body t g \<noteq> Inl DivByZero) \<Longrightarrow> cell_loop body gs s \<noteq> Inl DivByZero"
  by (induction gs arbitrary: s) (simp_all add: ebind_no_div)

lemma scan_cell_no_div:
  "(\<And>t i. body t i \<noteq> Inl DivByZero) \<Longrightarrow> scan_cell starts ends body s g \<noteq> Inl DivByZero"
  unfolding scan_cell_def by (intro ebind_no_div rd_no_div for_loop_no_div)

lemma counted_init: "counted (vzero, 0)"
  by (simp add: counted_def)

lemma rule1_body_no_div: "rule1_body pos iSelf acc i \<noteq> Inl DivByZero"
  unfolding rule1_body_def by (intro ebind_no_div rd_no_div) simp

lemma rule1Scatter_body_no_div: "rule1Scatter_body pai pos iSelf acc i \<noteq> Inl DivByZero"
  unfolding rule1Scatter_body_def by (intro ebind_no_div rd_no_div) (simp add: ebind_no_div rd_no_div)

lemma rule1Coherent_body_no_div: "rule1Coherent_body pos iSelf acc i \<noteq> Inl DivByZero"
  unfolding rule1Coherent_body_def by (simp add: ebind_no_div rd_no_div)

lemma rule3_body_no_div: "rule3_body pos vel iSelf acc i \<noteq> Inl DivByZero"
  unfolding rule3_body_def by (intro ebind_no_div rd_no_div) (simp add: ebind_no_div rd_no_div)

lemma rule3Scatter_body_no_div: "rule3Scatter_body pai pos vel iSelf acc i \<noteq> Inl DivByZero"
  unfolding rule3Scatter_body_def by (intro ebind_no_div rd_no_div) (simp add: ebind_no_div rd_no_div)

lemma rule3Coherent_body_no_div: "rule3Coherent_body pos vel iSelf acc i \<noteq> Inl DivByZero"
  unfolding rule3Coherent_body_def by (simp add: ebind_no_div rd_no_div)

lemma rule1_finish_no_div: "rule1_finish pos iSelf scale acc \<noteq> Inl DivByZero"
  unfolding rule1_finish_def by (simp add: vdiv_def rd_no_div ebind_no_div)

lemma rule3_finish_no_div: "rule3_finish scale acc \<noteq> Inl DivByZero"
  unfolding rule3_finish_def by (simp add: fdiv_def)

lemma rule3_body_counted: "counted t \<Longrightarrow> rule3_body pos vel iSelf t i = Inr t' \<Longrightarrow> counted t'"
  by (auto simp: rule3_body_def ebind_Inr counted_def split: if_splits)

lemma rule3Scatter_body_counted:
  "counted t \<Longrightarrow> rule3Scatter_body pai pos vel iSelf t i = Inr t' \<Longrightarrow> counted t'"
  by (auto simp: rule3Scatter_body_def ebind_Inr counted_def split: if_splits)

lemma rule3Coherent_body_counted:
  "counted t \<Longrightarrow> rule3Coherent_body pos vel iSelf t i = Inr t' \<Longrightarrow> counted t'"
  by (auto simp: rule3Coherent_body_def ebind_Inr counted_def split: if_splits)

lemma rule3_loops_counted: "rule3_loops N iSelf pos vel = Inr acc \<Longrightarrow> counted acc"
  unfolding rule3_loops_def
  by (auto simp: ebind_Inr elim!: for_loop_invariant [where Q = counted]
      intro: counted_init rule3_body_counted)

lemma rule3Scatter_loops_counted:
  "rule3Scatter_loops iSelf starts ends pai pos vel used = Inr acc \<Longrightarrow> counted acc"
  unfolding rule3Scatter_loops_def
  by (erule cell_loop_invariant [where Q = counted])
     (auto intro: counted_init rule3Scatter_body_counted elim: scan_cell_invariant [where Q = counted])

lemma rule3Coherent_loops_counted:
  "rule3Coherent_loops iSelf starts ends pos vel used = Inr acc \<Longrightarrow> counted acc"
  unfolding rule3Coherent_loops_def
  by (erule cell_loop_invariant [where Q = counted])
     (auto intro: counted_init rule3Coherent_body_counted elim: scan_cell_invariant [where Q = counted])

lemma rule3_finish_zero: "counted (vsum, 0) \<Longrightarrow> rule3_finish scale (vsum, 0) = Inr vzero"
  by (simp add: counted_def rule3_finish_def)

lemma rule1_finish_zero: "rule1_finish pos iSelf scale (pc, 0) = Inr vzero"
  by (simp add: rule1_finish_def)

text \<open>
  Claim C10. In the brute-force, scattered and coherent variants of rule 1 and of rule 3,
  the division by the neighbor count is reached only with a nonzero count: none of the six
  functions ever ends in \<open>DivByZero\<close>, whatever its arguments. When the loops end with
  the count \<open>n = 0\<close>, each of the six returns the zero vector.
\<close>

theorem rules_never_divide_by_zero:
  "rule1 N iSelf pos scale \<noteq> Inl DivByZero \<and>
   rule1Scatter iSelf starts ends pai pos used scale \<noteq> Inl DivByZero \<and>
   rule1Coherent iSelf starts ends pos used scale \<noteq> Inl DivByZero \<and>
   rule3 N iSelf pos vel scale \<noteq> Inl DivByZero \<and>
   rule3Scatter iSelf starts ends pai pos vel used scale \<noteq> Inl DivByZero \<and>
   rule3Coherent iSelf starts ends pos vel used scale \<noteq> Inl DivByZero \<and>
   (rule1_loops N iSelf pos = Inr (pc, 0) \<longrightarrow> rule1 N iSelf pos scale = Inr vzero) \<and>
   (rule1Scatter_loops iSelf starts ends pai pos used = Inr (pc, 0) \<longrightarrow>
      rule1Scatter iSelf starts ends pai pos used scale = Inr vzero) \<and>
   (rule1Coherent_loops iSelf starts ends pos used = Inr (pc, 0) \<longrightarrow>
      rule1Coherent iSelf starts ends pos used scale = Inr vzero) \<and>
   (rule3_loops N iSelf pos vel = Inr (vsum, 0) \<longrightarrow> rule3 N iSelf pos vel scale = Inr vzero) \<and>
   (rule3Scatter_loops iSelf starts ends pai pos vel used = Inr (vsum, 0) \<longrightarrow>
      rule3Scatter iSelf starts ends pai pos vel used scale = Inr vzero) \<and>
   (rule3Coherent_loops iSelf starts ends pos vel used = Inr (vsum, 0) \<longrightarrow>
      rule3Coherent iSelf starts ends pos vel used scale = Inr vzero)"
proof -
  have a1: "rule1 N iSelf pos scale \<noteq> Inl DivByZero"
    unfolding rule1_def rule1_loops_def
    by (intro ebind_no_div for_loop_no_div rule1_body_no_div rule1_finish_no_div)
  have a2: "rule1Scatter iSelf starts ends pai pos used scale \<noteq> Inl DivByZero"
    unfolding rule1Scatter_def rule1Scatter_loops_def
    by (intro ebind_no_div cell_loop_no_div scan_cell_no_div rule1Scatter_body_no_div
        rule1_finish_no_div)
  have a3: "rule1Coherent iSelf starts ends pos used scale \<noteq> Inl DivByZero"
    unfolding rule1Coherent_def rule1Coherent_loops_def
    by (intro ebind_no_div cell_loop_no_div scan_cell_no_div rule1Coherent_body_no_div
        rule1_finish_no_div)
  have a4: "rule3 N iSelf pos vel scale \<noteq> Inl DivByZero"
    unfolding rule3_def rule3_loops_def
    by (intro ebind_no_div for_loop_no_div rule3_body_no_div rule3_finish_no_div)
  have a5: "rule3Scatter iSelf starts ends pai pos vel used scale \<noteq> Inl DivByZero"
    unfolding rule3Scatter_def rule3Scatter_loops_def
    by (intro ebind_no_div cell_loop_no_div scan_cell_no_div rule3Scatter_body_no_div
        rule3_finish_no_div)
  have a6: "rule3Coherent iSelf starts ends pos vel used scale \<noteq> Inl DivByZero"
    unfolding rule3Coherent_def rule3Coherent_loops_def
    by (intro ebind_no_div cell_loop_no_div scan_cell_no_div rule3Coherent_body_no_div
        rule3_finish_no_div)
  have b1: "rule1 N iSelf pos scale = Inr vzero" if "rule1_loops N iSelf pos = Inr (pc, 0)"
    by (simp add: rule1_def that rule1_finish_zero)
  have b2: "rule1Scatter iSelf starts ends pai pos used scale = Inr vzero"
    if "rule1Scatter_loops iSelf starts ends pai pos used = Inr (pc, 0)"
    by (simp add: rule1Scatter_def that rule1_finish_zero)
  have b3: "rule1Coherent iSelf starts ends pos used scale = Inr vzero"
    if "rule1Coherent_loops iSelf starts ends pos used = Inr (pc, 0)"
    by (simp add: rule1Coherent_def that rule1_finish_zero)
  have b4: "rule3 N iSelf pos vel scale = Inr vzero" if "rule3_loops N iSelf pos vel = Inr (vsum, 0)"
    using rule3_loops_counted [OF that] by (simp add: rule3_def that rule3_finish_zero)
  have b5: "rule3Scatter iSelf starts ends pai pos vel used scale = Inr vzero"
    if "rule3Scatter_loops iSelf starts ends pai pos vel used = Inr (vsum, 0)"
    using rule3Scatter_loops_counted [OF that] by (simp add: rule3Scatter_def that rule3_finish_zero)
  have b6: "rule3Coherent iSelf starts ends pos vel used scale = Inr vzero"
    if "rule3Coherent_loops iSelf starts ends pos vel used = Inr (vsum, 0)"
    using rule3Coherent_loops_counted [OF that] by (simp add: rule3Coherent_def that rule3_finish_zero)
  from a1 a2 a3 a4 a5 a6 b1 b2 b3 b4 b5 b6 show ?thesis by blast
qed

theorem rules_never_divide_by_zero_witness:
  "rule1_loops 1 0 [\<lparr>vx = 1, vy = 2, vz = 3\<rparr>] = Inr (vzero, 0) \<and>
   rule1Scatter_loops 0 [0] [1] [0] [\<lparr>vx = 1, vy = 2, vz = 3\<rparr>] [0, - 1] = Inr (vzero, 0) \<and>
   rule1Coherent_loops 0 [0] [1] [\<lparr>vx = 1, vy = 2, vz = 3\<rparr>] [0, - 1] = Inr (vzero, 0) \<and>
   rule3_loops 1 0 [\<lparr>vx = 1, vy = 2, vz = 3\<rparr>] [\<lparr>vx = 0, vy = 1, vz = 0\<rparr>] = Inr (vzero, 0) \<and>
   rule3Scatter_loops 0 [0] [1] [0] [\<lparr>vx = 1, vy = 2, vz = 3\<rparr>] [\<lparr>vx = 0, vy = 1, vz = 0\<rparr>] [0, - 1]
     = Inr (vzero, 0) \<and>
   rule3Coherent_loops 0 [0] [1] [\<lparr>vx = 1, vy = 2, vz = 3\<rparr>] [\<lparr>vx = 0, vy = 1, vz = 0\<rparr>] [0, - 1]
     = Inr (vzero, 0) \<and>
   rule1 1 0 [\<lparr>vx = 1, vy = 2, vz = 3\<rparr>] rule1Scale = Inr vzero \<and>
   rule1Scatter 0 [0] [1] [0] [\<lparr>vx = 1, vy = 2, vz = 3\<rparr>] [0, - 1] rule1Scale = Inr vzero \<and>
   rule1Coherent 0 [0] [1] [\<lparr>vx = 1, vy = 2, vz = 3\<rparr>] [0, - 1] rule1Scale = Inr vzero \<and>
   rule3 1 0 [\<lparr>vx = 1, vy = 2, vz = 3\<rparr>] [\<lparr>vx = 0, vy = 1, vz = 0\<rparr>] rule1Scale = Inr vzero \<and>
   rule3Scatter 0 [0] [1] [0] [\<lparr>vx = 1, vy = 2, vz = 3\<rparr>] [\<lparr>vx = 0, vy = 1, vz = 0\<rparr>] [0, - 1] rule1Scale
     = Inr vzero \<and>
   rule3Coherent 0 [0] [1] [\<lparr>vx = 1, vy = 2, vz = 3\<rparr>] [\<lparr>vx = 0, vy = 1, vz = 0\<rparr>] [0, - 1] rule1Scale
     = Inr vzero"
proof -
  have l: "rule1_loops 1 0 [\<lparr>vx = 1, vy = 2, vz = 3\<rparr>] = Inr (vzero, 0)"
    "rule1Scatter_loops 0 [0] [1] [0] [\<lparr>vx = 1, vy = 2, vz = 3\<rparr>] [0, - 1] = Inr (vzero, 0)"
    "rule1Coherent_loops 0 [0] [1] [\<lparr>vx = 1, vy = 2, vz = 3\<rparr>] [0, - 1] = Inr (vzero, 0)"
    "rule3_loops 1 0 [\<lparr>vx = 1, vy = 2, vz = 3\<rparr>] [\<lparr>vx = 0, vy = 1, vz = 0\<rparr>] = Inr (vzero, 0)"
    "rule3Scatter_loops 0 [0] [1] [0] [\<lparr>vx = 1, vy = 2, vz = 3\<rparr>] [\<lparr>vx = 0, vy = 1, vz = 0\<rparr>] [0, - 1]
       = Inr (vzero, 0)"
    "rule3Coherent_loops 0 [0] [1] [\<lparr>vx = 1, vy = 2, vz = 3\<rparr>] [\<lparr>vx = 0, vy = 1, vz = 0\<rparr>] [0, - 1]
       = Inr (vzero, 0)"
    by (simp_all add: rule1_loops_def rule1Scatter_loops_def rule1Coherent_loops_def rule3_loops_def
        rule3Scatter_loops_def rule3Coherent_loops_def scan_cell_def rule1Scatter_body_def
        rule1Coherent_body_def rule3Scatter_body_def rule3Coherent_body_def rd_def upto.simps)
  show ?thesis
    using rules_never_divide_by_zero [of 1 0 "[\<lparr>vx = 1, vy = 2, vz = 3\<rparr>]" rule1Scale
        "[0]" "[1]" "[0]" "[0, - 1]" "[\<lparr>vx = 0, vy = 1, vz = 0\<rparr>]" vzero vzero] l
    by simp
qed

subsection \<open>Speed clamp\<close>

lemma sqrt_25: "sqrt 25 = 5"
  by (rule real_sqrt_unique) simp_all

lemma glm_length_smul: "glm_length (smul k w) = \<bar>k\<bar> * glm_length w"
proof -
  have "(k * vx w) * (k * vx w) + (k * vy w) * (k * vy w) + (k * vz w) * (k * vz w)
        = k\<^sup>2 * (vx w * vx w + vy w * vy w + vz w * vz w)"
    by (simp add: power2_eq_square algebra_simps)
  then show ?thesis
    by (simp add: glm_length_def smul_def real_sqrt_mult)
qed

lemma glm_length_rescaled:
  assumes "glm_length w > maxSpeed"
  shows "glm_length (smul (maxSpeed / glm_length w) w) = maxSpeed"
proof -
  have pos: "0 < glm_length w" using assms by (simp add: maxSpeed_def)
  then show ?thesis
    by (simp add: glm_length_smul maxSpeed_def)
qed

lemma clamp_store:
  assumes "0 \<le> i" and "i < int (length vel2)"
  shows "ebind (wr vel2 i w) (\<lambda>vel2.
         ebind (rd vel2 i) (\<lambda>w.
           let length = glm_length w
           in if length > maxSpeed then wr vel2 i (smul (maxSpeed / length) w)
              else Inr vel2))
         = Inr (vel2[nat i := (if glm_length w \<le> maxSpeed then w
                               else smul (maxSpeed / glm_length w) w)])"
  using assms by (simp add: wr_def rd_def Let_def not_le)

text \<open>
  Claim C7. Let \<open>d\<close> be the velocity change computed for particle \<open>i\<close> and
  \<open>w = vel1[i] + d\<close>. Each of the three velocity kernels (brute force, scattered grid,
  coherent grid) returns with \<open>vel2[i]\<close> set to \<open>w\<close> when the length of \<open>w\<close> is at most
  \<open>maxSpeed\<close>, and to \<open>(maxSpeed / |w|) * w\<close> otherwise: a positive multiple of \<open>w\<close>, of
  length exactly \<open>maxSpeed\<close>. In both cases the stored velocity has length at most
  \<open>maxSpeed\<close>.
\<close>

theorem velocity_update_clamped:
  assumes "0 \<le> i" and "i < N" and "i < int (length vel1)" and "i < int (length vel2)"
    and "w = vadd (vel1 ! nat i) d"
    and "out = (if glm_length w \<le> maxSpeed then w else smul (maxSpeed / glm_length w) w)"
  shows "(computeVelocityChange N i pos vel1 = Inr d \<longrightarrow>
            kernUpdateVelocityBruteForce N pos vel1 vel2 i = Inr (vel2[nat i := out])) \<and>
         (0 \<le> thread \<and> thread < N \<and> rd pai thread = Inr i \<and>
          findGridCells i res gmin icw cw starts pos used0 = Inr used \<and>
          computeVelocityChangeScattered i starts ends pai pos vel1 used = Inr d \<longrightarrow>
            kernUpdateVelNeighborSearchScattered N res gmin icw cw starts ends pai pos vel1 used0 vel2 thread
              = Inr (vel2[nat i := out])) \<and>
         (findGridCells i res gmin icw cw starts pos used0 = Inr used \<and>
          computeVelocityChangeCoherent i starts ends pos vel1 used = Inr d \<longrightarrow>
            kernUpdateVelNeighborSearchCoherent N res gmin icw cw starts ends pos vel1 used0 vel2 i
              = Inr (vel2[nat i := out])) \<and>
         glm_length out \<le> maxSpeed \<and>
         (glm_length w > maxSpeed \<longrightarrow> glm_length out = maxSpeed \<and> 0 < maxSpeed / glm_length w)"
proof -
  have v: "rd vel1 i = Inr (vel1 ! nat i)"
    using assms(1,3) by (simp add: rd_def)
  note store = clamp_store [OF assms(1,4), of w, folded assms(6)]
  have brute: "kernUpdateVelocityBruteForce N pos vel1 vel2 i = Inr (vel2[nat i := out])"
    if "computeVelocityChange N i pos vel1 = Inr d"
    using assms(2) by (simp add: kernUpdateVelocityBruteForce_def that v store flip: assms(5))
  have scat: "kernUpdateVelNeighborSearchScattered N res gmin icw cw starts ends pai pos vel1 used0 vel2 thread
              = Inr (vel2[nat i := out])"
    if "thread < N" "rd pai thread = Inr i"
      "findGridCells i res gmin icw cw starts pos used0 = Inr used"
      "computeVelocityChangeScattered i starts ends pai pos vel1 used = Inr d"
    using that(1) by (simp add: kernUpdateVelNeighborSearchScattered_def that(2-) v store flip: assms(5))
  have coh: "kernUpdateVelNeighborSearchCoherent N res gmin icw cw starts ends pos vel1 used0 vel2 i
              = Inr (vel2[nat i := out])"
    if "findGridCells i res gmin icw cw starts pos used0 = Inr used"
      "computeVelocityChangeCoherent i starts ends pos vel1 used = Inr d"
    using assms(2) by (simp add: kernUpdateVelNeighborSearchCoherent_def that v store flip: assms(5))
  have bound: "glm_length out \<le> maxSpeed"
    using glm_length_rescaled [of w] by (simp add: assms(6) not_le)
  have exact: "glm_length out = maxSpeed \<and> 0 < maxSpeed / glm_length w" if "glm_length w > maxSpeed"
    using glm_length_rescaled [OF that] that by (simp add: assms(6) maxSpeed_def)
  from brute scat coh bound exact show ?thesis by blast
qed

theorem velocity_update_clamped_witness:
  "computeVelocityChange 1 0 [\<lparr>vx = 0, vy = 0, vz = 0\<rparr>] [\<lparr>vx = 3, vy = 0, vz = 4\<rparr>] = Inr vzero \<and>
   rd [0] 0 = Inr (0 :: int) \<and>
   findGridCells 0 gridSideCount gridMinimum gridInverseCellWidth gridCellWidth ((replicate 216 (- 1))[129 := 0]) [\<lparr>vx = 0, vy = 0, vz = 0\<rparr>] (replicate 9 0) = Inr [129, - 1, 0, 0, 0, 0, 0, 0, 0] \<and>
   computeVelocityChangeScattered 0 ((replicate 216 (- 1))[129 := 0]) ((replicate 216 (- 1))[129 := 1]) [0] [\<lparr>vx = 0, vy = 0, vz = 0\<rparr>] [\<lparr>vx = 3, vy = 0, vz = 4\<rparr>] [129, - 1, 0, 0, 0, 0, 0, 0, 0] = Inr vzero \<and>
   computeVelocityChangeCoherent 0 ((replicate 216 (- 1))[129 := 0]) ((replicate 216 (- 1))[129 := 1]) [\<lparr>vx = 0, vy = 0, vz = 0\<rparr>] [\<lparr>vx = 3, vy = 0, vz = 4\<rparr>] [129, - 1, 0, 0, 0, 0, 0, 0, 0] = Inr vzero \<and>
   glm_length (vadd ([\<lparr>vx = 3, vy = 0, vz = 4\<rparr>] ! nat 0) vzero) = 5 \<and>
   kernUpdateVelocityBruteForce 1 [\<lparr>vx = 0, vy = 0, vz = 0\<rparr>] [\<lparr>vx = 3, vy = 0, vz = 4\<rparr>] [\<lparr>vx = 9, vy = 9, vz = 9\<rparr>] 0 = Inr [\<lparr>vx = 3 / 5, vy = 0, vz = 4 / 5\<rparr>] \<and>
   kernUpdateVelNeighborSearchScattered 1 gridSideCount gridMinimum gridInverseCellWidth gridCellWidth ((replicate 216 (- 1))[129 := 0]) ((replicate 216 (- 1))[129 := 1]) [0] [\<lparr>vx = 0, vy = 0, vz = 0\<rparr>] [\<lparr>vx = 3, vy = 0, vz = 4\<rparr>] (replicate 9 0) [\<lparr>vx = 9, vy = 9, vz = 9\<rparr>] 0 = Inr [\<lparr>vx = 3 / 5, vy = 0, vz = 4 / 5\<rparr>] \<and>
   kernUpdateVelNeighborSearchCoherent 1 gridSideCount gridMinimum gridInverseCellWidth gridCellWidth ((replicate 216 (- 1))[129 := 0]) ((replicate 216 (- 1))[129 := 1]) [\<lparr>vx = 0, vy = 0, vz = 0\<rparr>] [\<lparr>vx = 3, vy = 0, vz = 4\<rparr>] (replicate 9 0) [\<lparr>vx = 9, vy = 9, vz = 9\<rparr>] 0 = Inr [\<lparr>vx = 3 / 5, vy = 0, vz = 4 / 5\<rparr>] \<and>
   glm_length (hd [\<lparr>vx = 3 / 5, vy = 0, vz = 4 / 5\<rparr>]) = maxSpeed"
proof -
  have brute: "computeVelocityChange 1 0 [\<lparr>vx = 0, vy = 0, vz = 0\<rparr>] [\<lparr>vx = 3, vy = 0, vz = 4\<rparr>] = Inr vzero"
    by (simp add: computeVelocityChange_def rule1_def rule1_loops_def rule1_finish_def rule2_def
        rule3_def rule3_loops_def rule3_finish_def vscale_def vadd_def vzero_def)
  have cells: "findGridCells 0 gridSideCount gridMinimum gridInverseCellWidth gridCellWidth ((replicate 216 (- 1))[129 := 0]) [\<lparr>vx = 0, vy = 0, vz = 0\<rparr>] (replicate 9 0) = Inr [129, - 1, 0, 0, 0, 0, 0, 0, 0]"
    by code_simp
  have scat: "computeVelocityChangeScattered 0 ((replicate 216 (- 1))[129 := 0]) ((replicate 216 (- 1))[129 := 1]) [0] [\<lparr>vx = 0, vy = 0, vz = 0\<rparr>] [\<lparr>vx = 3, vy = 0, vz = 4\<rparr>] [129, - 1, 0, 0, 0, 0, 0, 0, 0] = Inr vzero"
    by (simp add: computeVelocityChangeScattered_def rule1Scatter_def rule1Scatter_loops_def
        rule1Scatter_body_def rule1_finish_def rule2Scatter_def rule2Scatter_body_def
        rule3Scatter_def rule3Scatter_loops_def rule3Scatter_body_def rule3_finish_def
        scan_cell_def rd_def upto.simps vscale_def vadd_def vzero_def)
  have coh: "computeVelocityChangeCoherent 0 ((replicate 216 (- 1))[129 := 0]) ((replicate 216 (- 1))[129 := 1]) [\<lparr>vx = 0, vy = 0, vz = 0\<rparr>] [\<lparr>vx = 3, vy = 0, vz = 4\<rparr>] [129, - 1, 0, 0, 0, 0, 0, 0, 0] = Inr vzero"
    by (simp add: computeVelocityChangeCoherent_def rule1Coherent_def rule1Coherent_loops_def
        rule1Coherent_body_def rule1_finish_def rule2Coherent_def rule2Coherent_body_def
        rule3Coherent_def rule3Coherent_loops_def rule3Coherent_body_def rule3_finish_def
        scan_cell_def rd_def upto.simps vscale_def vadd_def vzero_def)
  have len: "glm_length (vadd ([\<lparr>vx = 3, vy = 0, vz = 4\<rparr>] ! nat 0) vzero) = 5"
    by (simp add: vadd_def vzero_def glm_length_def sqrt_25)
  have self: "rd [0] 0 = Inr (0 :: int)"
    by (simp add: rd_def)
  show ?thesis
    using velocity_update_clamped [of 0 1 "[\<lparr>vx = 3, vy = 0, vz = 4\<rparr>]" "[\<lparr>vx = 9, vy = 9, vz = 9\<rparr>]" "vadd ([\<lparr>vx = 3, vy = 0, vz = 4\<rparr>] ! nat 0) vzero" vzero
        "\<lparr>vx = 3 / 5, vy = 0, vz = 4 / 5\<rparr>" "[\<lparr>vx = 0, vy = 0, vz = 0\<rparr>]" 0 "[0]"
        gridSideCount gridMinimum gridInverseCellWidth gridCellWidth "((replicate 216 (- 1))[129 := 0])" "(replicate 9 0)" "[129, - 1, 0, 0, 0, 0, 0, 0, 0]" "((replicate 216 (- 1))[129 := 1])"]
      brute cells scat coh len self
    by (simp add: maxSpeed_def smul_def vadd_def vzero_def)
qed

end
